theory Spec2Isabelle
  imports Complex_Main "HOL-Library.Word" "HOL-Library.Multiset" "HOL-Library.Sublist"
begin

unbundle bit_operations_syntax

section \<open>Bytes, exceptions and \<open>struct.pack\<close>\<close>

text \<open>
  A Python \<open>bytes\<close> object is a list of 8-bit words. Every exception the scripts can raise
  is a value of \<open>error\<close>; a computation that may raise returns \<open>error + 'a\<close> and
  \<open>bind\<close> sequences two of them, stopping at the first exception.
\<close>

type_synonym byte = "8 word"
type_synonym bytes = "byte list"

datatype error = StructError | ValueError | KeyError | IndexError | ZeroDivisionError | OverflowError

definition bind :: "error + 'a \<Rightarrow> ('a \<Rightarrow> error + 'b) \<Rightarrow> error + 'b" where
  "bind m f = (case m of Inl e \<Rightarrow> Inl e | Inr x \<Rightarrow> f x)"

text \<open>A list comprehension whose element expression may raise.\<close>

fun comprehension :: "('a \<Rightarrow> error + 'b) \<Rightarrow> 'a list \<Rightarrow> error + 'b list" where
  "comprehension f [] = Inr []"
| "comprehension f (x # xs) =
     bind (f x) (\<lambda>y. bind (comprehension f xs) (\<lambda>ys. Inr (y # ys)))"

text \<open>The \<open>n\<close> low bytes of \<open>v\<close>, least significant first.\<close>

definition le_bytes :: "nat \<Rightarrow> int \<Rightarrow> bytes" where
  "le_bytes n v = map (\<lambda>i. word_of_int (v div 256 ^ i mod 256)) [0..<n]"

text \<open>
  \<open>struct.pack('<H', v)\<close>, \<open>struct.pack('<I', v)\<close> and \<open>struct.pack('<Q', v)\<close>:
  \<open>struct.error\<close> when \<open>v\<close> does not fit the unsigned field.
\<close>

definition pack_H :: "int \<Rightarrow> error + bytes" where
  "pack_H v = (if 0 \<le> v \<and> v < 2 ^ 16 then Inr (le_bytes 2 v) else Inl StructError)"

definition pack_I :: "int \<Rightarrow> error + bytes" where
  "pack_I v = (if 0 \<le> v \<and> v < 2 ^ 32 then Inr (le_bytes 4 v) else Inl StructError)"

definition pack_Q :: "int \<Rightarrow> error + bytes" where
  "pack_Q v = (if 0 \<le> v \<and> v < 2 ^ 64 then Inr (le_bytes 8 v) else Inl StructError)"

section \<open>SHA-256 (\<open>hashlib.sha256\<close>)\<close>

text \<open>
  The hash function of the standard library, after FIPS 180-4. A 32-bit word is a list of
  32 bits, least significant bit first, so that rotation is list surgery and addition is a
  ripple-carry adder; this keeps the evaluation of a digest inside the simplifier cheap.
\<close>

type_synonym bits = "bool list"

definition byte_bits :: "byte \<Rightarrow> bits" where
  "byte_bits b = map (bit b) [0..<8]"

definition word_bits :: "32 word \<Rightarrow> bits" where
  "word_bits w = map (bit w) [0..<32]"

definition bits_byte :: "bits \<Rightarrow> byte" where
  "bits_byte bs = horner_sum of_bool 2 bs"

text \<open>Big-endian 32-bit words of a byte string.\<close>

fun be_words :: "bytes \<Rightarrow> bits list" where
  "be_words (a # b # c # d # rest) =
     (byte_bits d @ byte_bits c @ byte_bits b @ byte_bits a) # be_words rest"
| "be_words _ = []"

definition word_bytes :: "bits \<Rightarrow> bytes" where
  "word_bytes w = [bits_byte (take 8 (drop 24 w)), bits_byte (take 8 (drop 16 w)),
                   bits_byte (take 8 (drop 8 w)), bits_byte (take 8 w)]"

fun bxor3 :: "bool \<Rightarrow> bool \<Rightarrow> bool \<Rightarrow> bool" where
  "bxor3 False False c = c"
| "bxor3 False True c = (\<not> c)"
| "bxor3 True False c = (\<not> c)"
| "bxor3 True True c = c"

fun bmaj :: "bool \<Rightarrow> bool \<Rightarrow> bool \<Rightarrow> bool" where
  "bmaj False False c = False"
| "bmaj False True c = c"
| "bmaj True False c = c"
| "bmaj True True c = True"

fun xor3w :: "bits \<Rightarrow> bits \<Rightarrow> bits \<Rightarrow> bits" where
  "xor3w (a # as) (b # bs) (c # cs) = bxor3 a b c # xor3w as bs cs"
| "xor3w _ _ _ = []"

fun chw :: "bits \<Rightarrow> bits \<Rightarrow> bits \<Rightarrow> bits" where
  "chw (e # es) (f # fs) (g # gs) = (if e then f else g) # chw es fs gs"
| "chw _ _ _ = []"

fun majw :: "bits \<Rightarrow> bits \<Rightarrow> bits \<Rightarrow> bits" where
  "majw (a # as) (b # bs) (c # cs) = bmaj a b c # majw as bs cs"
| "majw _ _ _ = []"

text \<open>Addition modulo \<open>2 ^ 32\<close>: the carry out of the last bit is dropped.\<close>

fun addc :: "bool \<Rightarrow> bits \<Rightarrow> bits \<Rightarrow> bits" where
  "addc c (a # as) (b # bs) = bxor3 a b c # addc (bmaj a b c) as bs"
| "addc c _ _ = []"

definition add32 :: "bits \<Rightarrow> bits \<Rightarrow> bits" where
  "add32 x y = addc False x y"

definition rotr :: "nat \<Rightarrow> bits \<Rightarrow> bits" where
  "rotr n x = drop n x @ take n x"

definition shr :: "nat \<Rightarrow> bits \<Rightarrow> bits" where
  "shr n x = drop n x @ replicate n False"

definition ssig0 :: "bits \<Rightarrow> bits" where
  "ssig0 x = xor3w (rotr 7 x) (rotr 18 x) (shr 3 x)"

definition ssig1 :: "bits \<Rightarrow> bits" where
  "ssig1 x = xor3w (rotr 17 x) (rotr 19 x) (shr 10 x)"

definition bsig0 :: "bits \<Rightarrow> bits" where
  "bsig0 x = xor3w (rotr 2 x) (rotr 13 x) (rotr 22 x)"

definition bsig1 :: "bits \<Rightarrow> bits" where
  "bsig1 x = xor3w (rotr 6 x) (rotr 11 x) (rotr 25 x)"

definition sha_K :: "32 word list" where
  "sha_K = [
   0x428A2F98, 0x71374491, 0xB5C0FBCF, 0xE9B5DBA5, 0x3956C25B, 0x59F111F1, 0x923F82A4, 0xAB1C5ED5,
   0xD807AA98, 0x12835B01, 0x243185BE, 0x550C7DC3, 0x72BE5D74, 0x80DEB1FE, 0x9BDC06A7, 0xC19BF174,
   0xE49B69C1, 0xEFBE4786, 0x0FC19DC6, 0x240CA1CC, 0x2DE92C6F, 0x4A7484AA, 0x5CB0A9DC, 0x76F988DA,
   0x983E5152, 0xA831C66D, 0xB00327C8, 0xBF597FC7, 0xC6E00BF3, 0xD5A79147, 0x06CA6351, 0x14292967,
   0x27B70A85, 0x2E1B2138, 0x4D2C6DFC, 0x53380D13, 0x650A7354, 0x766A0ABB, 0x81C2C92E, 0x92722C85,
   0xA2BFE8A1, 0xA81A664B, 0xC24B8B70, 0xC76C51A3, 0xD192E819, 0xD6990624, 0xF40E3585, 0x106AA070,
   0x19A4C116, 0x1E376C08, 0x2748774C, 0x34B0BCB5, 0x391C0CB3, 0x4ED8AA4A, 0x5B9CCA4F, 0x682E6FF3,
   0x748F82EE, 0x78A5636F, 0x84C87814, 0x8CC70208, 0x90BEFFFA, 0xA4506CEB, 0xBEF9A3F7, 0xC67178F2]"

definition sha_H0 :: "32 word list" where
  "sha_H0 = [0x6A09E667, 0xBB67AE85, 0x3C6EF372, 0xA54FF53A,
             0x510E527F, 0x9B05688C, 0x1F83D9AB, 0x5BE0CD19]"

text \<open>
  The message schedule, newest word first: \<open>ws ! 1\<close> is \<open>W[t-2]\<close>, \<open>ws ! 15\<close> is
  \<open>W[t-16]\<close>.
\<close>

fun schedule :: "nat \<Rightarrow> bits list \<Rightarrow> bits list" where
  "schedule 0 ws = ws"
| "schedule (Suc n) ws =
     schedule n (add32 (add32 (add32 (ws ! 15) (ssig0 (ws ! 14))) (ws ! 6)) (ssig1 (ws ! 1)) # ws)"

text \<open>One round on the working variables \<open>[a, b, c, d, e, f, g, h]\<close>.\<close>

definition sha_round :: "bits \<Rightarrow> bits \<Rightarrow> bits list \<Rightarrow> bits list" where
  "sha_round t1 t2 st =
     [add32 t1 t2, st ! 0, st ! 1, st ! 2, add32 (st ! 3) t1, st ! 4, st ! 5, st ! 6]"

fun rounds :: "32 word list \<Rightarrow> bits list \<Rightarrow> bits list \<Rightarrow> bits list" where
  "rounds (k # ks) (w # ws) st =
     rounds ks ws
       (sha_round
          (add32 (add32 (add32 (add32 (st ! 7) (bsig1 (st ! 4))) (chw (st ! 4) (st ! 5) (st ! 6)))
                   (word_bits k)) w)
          (add32 (bsig0 (st ! 0)) (majw (st ! 0) (st ! 1) (st ! 2))) st)"
| "rounds _ _ st = st"

fun add_state :: "bits list \<Rightarrow> bits list \<Rightarrow> bits list" where
  "add_state (a # as) (b # bs) = add32 a b # add_state as bs"
| "add_state _ _ = []"

definition compress :: "bits list \<Rightarrow> bits list \<Rightarrow> bits list" where
  "compress st blk = add_state st (rounds sha_K (rev (schedule 48 (rev blk))) st)"

text \<open>The padded message is consumed sixteen words at a time.\<close>

fun sha_blocks :: "bits list \<Rightarrow> bits list \<Rightarrow> bits list" where
  "sha_blocks st [] = st"
| "sha_blocks st (w # ws) = sha_blocks (compress st (take 16 (w # ws))) (drop 15 ws)"

definition sha_pad :: "bytes \<Rightarrow> bytes" where
  "sha_pad m =
     m @ [0x80] @ replicate ((119 - length m mod 64) mod 64) 0
       @ map (\<lambda>i. word_of_nat (8 * length m div 256 ^ i mod 256)) [7, 6, 5, 4, 3, 2, 1, 0]"

definition sha256 :: "bytes \<Rightarrow> bytes" where
  "sha256 m = concat (map word_bytes (sha_blocks (map word_bits sha_H0) (be_words (sha_pad m))))"

text \<open>The bits of a numeral, read off its binary representation.\<close>

fun num_bits :: "nat \<Rightarrow> num \<Rightarrow> bits" where
  "num_bits 0 k = []"
| "num_bits (Suc n) num.One = True # replicate n False"
| "num_bits (Suc n) (num.Bit0 k) = False # num_bits n k"
| "num_bits (Suc n) (num.Bit1 k) = True # num_bits n k"

section \<open>The multisig spend (week 2)\<close>

text \<open>\<open>bytes([value])\<close> raises \<open>ValueError\<close> for a negative number.\<close>

definition serialize_varint :: "int \<Rightarrow> error + bytes" where
  "serialize_varint v =
     (if v < 0xfd then (if 0 \<le> v then Inr [word_of_int v] else Inl ValueError)
      else if v \<le> 0xffff then bind (pack_H v) (\<lambda>b. Inr (0xfd # b))
      else if v \<le> 0xffffffff then bind (pack_I v) (\<lambda>b. Inr (0xfe # b))
      else bind (pack_Q v) (\<lambda>b. Inr (0xff # b)))"


text \<open>
  The dictionaries of an input and of an output. The key \<open>'value'\<close> of an output is the
  field \<open>amount\<close>.
\<close>

record txin =
  prev_txid :: bytes
  prev_index :: int
  script_sig :: bytes
  sequence :: int

record txout =
  amount :: int
  script_pubkey :: bytes

fun serialize_inputs_loop :: "bytes \<Rightarrow> txin list \<Rightarrow> error + bytes" where
  "serialize_inputs_loop serialized_inputs [] = Inr serialized_inputs"
| "serialize_inputs_loop serialized_inputs (txin # rest) =
     bind (pack_I (prev_index txin)) (\<lambda>idx.
     bind (serialize_varint (int (length (script_sig txin)))) (\<lambda>n.
     bind (pack_I (sequence txin)) (\<lambda>sq.
       serialize_inputs_loop
         (serialized_inputs @ prev_txid txin @ idx @ n @ script_sig txin @ sq) rest)))"

definition serialize_inputs :: "txin list \<Rightarrow> error + bytes" where
  "serialize_inputs tx_inputs = serialize_inputs_loop [] tx_inputs"

fun serialize_outputs_loop :: "bytes \<Rightarrow> txout list \<Rightarrow> error + bytes" where
  "serialize_outputs_loop serialized_outputs [] = Inr serialized_outputs"
| "serialize_outputs_loop serialized_outputs (txout # rest) =
     bind (pack_Q (amount txout)) (\<lambda>v.
     bind (serialize_varint (int (length (script_pubkey txout)))) (\<lambda>n.
       serialize_outputs_loop (serialized_outputs @ v @ n @ script_pubkey txout) rest))"

definition serialize_outputs :: "txout list \<Rightarrow> error + bytes" where
  "serialize_outputs tx_outputs = serialize_outputs_loop [] tx_outputs"

text \<open>\<open>tx_inputs[0]\<close>: \<open>IndexError\<close> on the empty list.\<close>

definition first_input :: "txin list \<Rightarrow> error + txin" where
  "first_input tx_inputs = (case tx_inputs of [] \<Rightarrow> Inl IndexError | txin # _ \<Rightarrow> Inr txin)"

text \<open>
  The local \<open>preimage\<close> of \<open>calculate_sighash\<close>. The parameter \<open>locktime\<close> is not read:
  the spent value and the locktime are the literals \<open>100000\<close> and \<open>0\<close>.
\<close>

definition sighash_preimage ::
  "int \<Rightarrow> txin list \<Rightarrow> txout list \<Rightarrow> bytes \<Rightarrow> int \<Rightarrow> error + bytes" where
  "sighash_preimage tx_version tx_inputs tx_outputs redeem_script locktime =
     bind (comprehension
             (\<lambda>txin. bind (pack_I (prev_index txin)) (\<lambda>idx. Inr (prev_txid txin @ idx)))
             tx_inputs) (\<lambda>ps.
     let prevouts = sha256 (sha256 (concat ps)) in
     bind (comprehension (\<lambda>txin. pack_I (sequence txin)) tx_inputs) (\<lambda>sqs.
     let sequences = sha256 (sha256 (concat sqs)) in
     bind (serialize_varint (int (length redeem_script))) (\<lambda>n.
     let scriptCode = n @ redeem_script in
     bind (comprehension
             (\<lambda>txout. bind (pack_Q (amount txout)) (\<lambda>v.
                      bind (serialize_varint (int (length (script_pubkey txout)))) (\<lambda>m.
                        Inr (v @ m @ script_pubkey txout))))
             tx_outputs) (\<lambda>os.
     let outputs = sha256 (sha256 (concat os)) in
     bind (pack_I tx_version) (\<lambda>ver.
     bind (first_input tx_inputs) (\<lambda>txin0.
     bind (pack_I (prev_index txin0)) (\<lambda>idx0.
     bind (pack_Q 100000) (\<lambda>utxo_value.
     bind (pack_I (sequence txin0)) (\<lambda>sq0.
     bind (pack_I 0) (\<lambda>lt.
     bind (pack_I 0x01) (\<lambda>sighash_all.
       Inr (ver @ prevouts @ sequences @ prev_txid txin0 @ idx0 @ scriptCode @ utxo_value
              @ sq0 @ outputs @ lt @ sighash_all))))))))))))"

definition calculate_sighash ::
  "int \<Rightarrow> txin list \<Rightarrow> txout list \<Rightarrow> bytes \<Rightarrow> int \<Rightarrow> error + bytes" where
  "calculate_sighash tx_version tx_inputs tx_outputs redeem_script locktime =
     bind (sighash_preimage tx_version tx_inputs tx_outputs redeem_script locktime)
       (\<lambda>preimage. Inr (sha256 (sha256 preimage)))"

fun serialize_witness_loop :: "bytes \<Rightarrow> bytes list \<Rightarrow> error + bytes" where
  "serialize_witness_loop tx_bytes [] = Inr tx_bytes"
| "serialize_witness_loop tx_bytes (item # rest) =
     bind (serialize_varint (int (length item))) (\<lambda>n.
       serialize_witness_loop (tx_bytes @ n @ item) rest)"

definition assemble_transaction ::
  "int \<Rightarrow> txin list \<Rightarrow> txout list \<Rightarrow> bytes list \<Rightarrow> int \<Rightarrow> error + bytes" where
  "assemble_transaction tx_version tx_inputs tx_outputs witness locktime =
     bind (pack_I tx_version) (\<lambda>ver.
     bind (serialize_varint (int (length tx_inputs))) (\<lambda>n_in.
     bind (serialize_inputs tx_inputs) (\<lambda>ins.
     bind (serialize_varint (int (length tx_outputs))) (\<lambda>n_out.
     bind (serialize_outputs tx_outputs) (\<lambda>outs.
     bind (serialize_varint (int (length witness))) (\<lambda>n_wit.
     bind (serialize_witness_loop (ver @ [0x00, 0x01] @ n_in @ ins @ n_out @ outs @ n_wit) witness)
       (\<lambda>tx_bytes.
     bind (pack_I locktime) (\<lambda>lt.
       Inr (tx_bytes @ lt)))))))))"

section \<open>Mining a block (week 3)\<close>

definition target_threshold :: bytes where
  "target_threshold = [0x00, 0x00, 0xff, 0xff] @ replicate 28 0x00"

definition witness_reserved_value :: bytes where
  "witness_reserved_value = replicate 32 0"

definition max_block_size :: int where
  "max_block_size = 4000000"

definition hash_twice :: "bytes \<Rightarrow> bytes" where
  "hash_twice data = sha256 (sha256 data)"

subsection \<open>\<open>bytes.hex\<close> and \<open>bytes.fromhex\<close>\<close>

definition hex_digit :: "nat \<Rightarrow> char" where
  "hex_digit n = ''0123456789abcdef'' ! n"

definition bytes_hex :: "bytes \<Rightarrow> string" where
  "bytes_hex bs = concat (map (\<lambda>b. [hex_digit (unat b div 16), hex_digit (unat b mod 16)]) bs)"

definition hex_value :: "char \<Rightarrow> nat option" where
  "hex_value c =
     map_of (zip ''0123456789abcdef'' [0, 1, 2, 3, 4, 5, 6, 7, 8, 9, 10, 11, 12, 13, 14, 15]
             @ zip ''ABCDEF'' [10, 11, 12, 13, 14, 15]) c"

text \<open>ASCII whitespace: space, tab, line feed, carriage return, vertical tab, form feed.\<close>

definition is_space :: "char \<Rightarrow> bool" where
  "is_space c = (c \<in> set [CHR 0x20, CHR 0x09, CHR 0x0A, CHR 0x0D, CHR 0x0B, CHR 0x0C])"

text \<open>
  \<open>bytes.fromhex\<close> skips whitespace in front of a pair of digits and raises \<open>ValueError\<close>
  on any other character and on a digit without its partner.
\<close>

fun bytes_fromhex :: "string \<Rightarrow> error + bytes" where
  "bytes_fromhex [] = Inr []"
| "bytes_fromhex [c] = (if is_space c then Inr [] else Inl ValueError)"
| "bytes_fromhex (c # d # rest) =
     (if is_space c then bytes_fromhex (d # rest)
      else (case (hex_value c, hex_value d) of
              (Some hi, Some lo) \<Rightarrow>
                bind (bytes_fromhex rest) (\<lambda>bs. Inr (word_of_nat (16 * hi + lo) # bs))
            | _ \<Rightarrow> Inl ValueError))"

subsection \<open>The transaction pool and the selection\<close>

text \<open>
  A record of the pool is a JSON object; a field it may lack is an option, and
  \<open>tx['field']\<close> raises \<open>KeyError\<close> where it is missing.
\<close>

record pool_tx =
  fee :: "int option"
  weight :: "int option"
  txid :: "string option"
  hex :: "string option"

definition getitem :: "'a option \<Rightarrow> error + 'a" where
  "getitem field = (case field of None \<Rightarrow> Inl KeyError | Some v \<Rightarrow> Inr v)"

definition valid_txs :: "pool_tx list \<Rightarrow> pool_tx list" where
  "valid_txs tx_list = filter (\<lambda>tx. fee tx \<noteq> None \<and> weight tx \<noteq> None) tx_list"

text \<open>
  The sort key \<open>tx['fee'] / tx['weight']\<close> is a double. Doubles are not modelled: Python's
  true division of two integers is the parameter \<open>truediv\<close>, which returns a key in some
  linear order or the exception it raises (\<open>ZeroDivisionError\<close>, \<open>OverflowError\<close>).
\<close>

definition fee_rate :: "(int \<Rightarrow> int \<Rightarrow> error + 'k) \<Rightarrow> pool_tx \<Rightarrow> error + 'k" where
  "fee_rate truediv tx =
     bind (getitem (fee tx)) (\<lambda>f. bind (getitem (weight tx)) (\<lambda>w. truediv f w))"

text \<open>
  \<open>list.sort(key=..., reverse=True)\<close>: the keys are computed first, one per element; the
  list is reversed, sorted by a stable ascending sort and reversed again, so that elements
  with equal keys keep their order.
\<close>

definition sort_reverse :: "(int \<Rightarrow> int \<Rightarrow> error + 'k::linorder) \<Rightarrow> pool_tx list \<Rightarrow> error + pool_tx list" where
  "sort_reverse truediv txs =
     bind (comprehension (fee_rate truediv) txs) (\<lambda>keys.
       Inr (map snd (rev (sort_key fst (rev (zip keys txs))))))"

text \<open>The selection loop, from a state \<open>(selected_txs, total_weight)\<close> to the final one.\<close>

fun select_loop :: "pool_tx list \<Rightarrow> int \<Rightarrow> pool_tx list \<Rightarrow> error + pool_tx list \<times> int" where
  "select_loop selected_txs total_weight [] = Inr (selected_txs, total_weight)"
| "select_loop selected_txs total_weight (tx # rest) =
     bind (getitem (weight tx)) (\<lambda>w.
       if total_weight + w \<le> max_block_size - 4000
       then select_loop (selected_txs @ [tx]) (total_weight + w) rest
       else select_loop selected_txs total_weight rest)"

definition select_txs :: "(int \<Rightarrow> int \<Rightarrow> error + 'k::linorder) \<Rightarrow> pool_tx list \<Rightarrow> error + pool_tx list" where
  "select_txs truediv tx_list =
     bind (sort_reverse truediv (valid_txs tx_list)) (\<lambda>sorted_txs.
     bind (select_loop [] 0 sorted_txs) (\<lambda>(selected_txs, total_weight). Inr selected_txs))"

definition total_fees :: "pool_tx list \<Rightarrow> error + int" where
  "total_fees selected_txs =
     bind (comprehension (\<lambda>tx. getitem (fee tx)) selected_txs) (\<lambda>fees. Inr (sum_list fees))"

subsection \<open>The coinbase transaction, written twice\<close>

definition script_sig_coinbase :: bytes where
  "script_sig_coinbase = [0x04] @ replicate 4 0x00"

definition p2pkh_script :: bytes where
  "p2pkh_script =
     [0x76, 0xa9, 0x14, 0x00, 0x00, 0x00, 0x00, 0x00, 0x00, 0x00, 0x00, 0x00, 0x00, 0x00, 0x00,
      0x00, 0x00, 0x00, 0x00, 0x00, 0x00, 0x00, 0x00, 0x88, 0xac]"

definition commitment_header :: bytes where
  "commitment_header = [0x6a, 0x24, 0xaa, 0x21, 0xa9, 0xed]"

text \<open>Lines 46 to 72: the first pass, with 32 zero bytes in place of the commitment.\<close>

definition coinbase_tx :: "int \<Rightarrow> error + bytes" where
  "coinbase_tx fees =
     bind (pack_I 1) (\<lambda>tx_version.
     bind (pack_I 0xFFFFFFFF) (\<lambda>prev_index.
     bind (pack_Q (5000000000 + fees)) (\<lambda>reward.
     let commitment_script = commitment_header @ replicate 32 0x00 in
     bind (pack_I 0) (\<lambda>locktime.
       Inr (tx_version @ [0x00] @ [0x01] @ [0x01] @ replicate 32 0x00 @ prev_index
              @ [word_of_nat (length script_sig_coinbase)] @ script_sig_coinbase
              @ replicate 4 0xFF @ [0x02] @ reward @ [0x19] @ p2pkh_script
              @ replicate 8 0x00 @ [word_of_nat (length commitment_script)] @ commitment_script
              @ [0x01] @ [0x20] @ witness_reserved_value @ locktime)))))"

text \<open>Lines 88 to 110: the second pass, with the commitment computed in between.\<close>

definition coinbase_tx_final :: "int \<Rightarrow> bytes \<Rightarrow> error + bytes" where
  "coinbase_tx_final fees witness_commitment_value =
     bind (pack_I 1) (\<lambda>tx_version.
     bind (pack_I 0xFFFFFFFF) (\<lambda>prev_index.
     bind (pack_Q (5000000000 + fees)) (\<lambda>reward.
     let commitment_script = commitment_header @ witness_commitment_value in
     bind (pack_I 0) (\<lambda>locktime.
       Inr (tx_version @ [0x00] @ [0x01] @ [0x01] @ replicate 32 0x00 @ prev_index
              @ [word_of_nat (length script_sig_coinbase)] @ script_sig_coinbase
              @ replicate 4 0xFF @ [0x02] @ reward @ [0x19] @ p2pkh_script
              @ replicate 8 0x00 @ [word_of_nat (length commitment_script)] @ commitment_script
              @ [0x01] @ [0x20] @ witness_reserved_value @ locktime)))))"

subsection \<open>Witness ids, merkle roots and the commitment\<close>

definition tx_wtxid_list :: "bytes \<Rightarrow> pool_tx list \<Rightarrow> error + string list" where
  "tx_wtxid_list coinbase selected_txs =
     bind (comprehension
             (\<lambda>tx. bind (getitem (hex tx)) (\<lambda>h. bind (bytes_fromhex h) (\<lambda>raw.
                      Inr (bytes_hex (rev (hash_twice raw))))))
             selected_txs) (\<lambda>wtxids.
       Inr (bytes_hex (rev (hash_twice coinbase)) # wtxids))"

text \<open>
  One level of the tree: \<open>[hash_twice(h[i] + h[i+1]) for i in range(0, len(h), 2)]\<close>. The
  loop below calls it on lists of even length only, where \<open>h[i+1]\<close> is always in range.
\<close>

fun pair_hashes :: "bytes list \<Rightarrow> bytes list" where
  "pair_hashes (a # b # rest) = hash_twice (a @ b) # pair_hashes rest"
| "pair_hashes _ = []"

text \<open>
  The \<open>while len(hash_list) > 1\<close> loop, which the script contains twice, once for the
  witness root (lines 80 to 83) and once for the merkle root (lines 116 to 119).
\<close>

function merkle_loop :: "bytes list \<Rightarrow> bytes list" where
  "merkle_loop hash_list =
     (if length hash_list > 1
      then merkle_loop
             (pair_hashes (if odd (length hash_list) then hash_list @ [last hash_list]
                           else hash_list))
      else hash_list)"
  by pat_completeness auto
termination
proof (relation "measure length")
  fix hash_list :: "bytes list"
  have halves: "length (pair_hashes hs) = length hs div 2" for hs
    by (induction hs rule: pair_hashes.induct) simp_all
  have shrinks: "Suc (n div 2) < n" if "odd n" "Suc 0 < n" for n :: nat
    using that by presburger
  assume "1 < length hash_list"
  then show "(pair_hashes (if odd (length hash_list) then hash_list @ [last hash_list]
                           else hash_list), hash_list) \<in> measure length"
    by (auto simp: halves shrinks)
qed simp

text \<open>\<open>hash_list[0] if hash_list else bytes(32)\<close>\<close>

definition merkle_root :: "bytes list \<Rightarrow> bytes" where
  "merkle_root hash_list =
     (case merkle_loop hash_list of [] \<Rightarrow> replicate 32 0x00 | h # _ \<Rightarrow> h)"

text \<open>Line 79; the conditional expression covers the whole sum.\<close>

definition witness_hash_list :: "string list \<Rightarrow> error + bytes list" where
  "witness_hash_list wtxids =
     (if wtxids \<noteq> []
      then bind (comprehension (\<lambda>txid. bind (bytes_fromhex txid) (\<lambda>b. Inr (rev b)))
                   (drop 1 wtxids)) (\<lambda>hs.
             Inr ([replicate 32 0x00] @ hs))
      else Inr [])"

definition witness_commitment_value :: "string list \<Rightarrow> error + bytes" where
  "witness_commitment_value wtxids =
     bind (witness_hash_list wtxids) (\<lambda>hash_list.
       let witness_root_hash = merkle_root hash_list
       in Inr (hash_twice (witness_root_hash @ witness_reserved_value)))"

definition tx_id_list :: "string \<Rightarrow> pool_tx list \<Rightarrow> error + string list" where
  "tx_id_list coinbase_wtxid selected_txs =
     bind (comprehension (\<lambda>tx. getitem (txid tx)) selected_txs) (\<lambda>txids.
       Inr ([coinbase_wtxid] @ txids))"

definition merkle_root_hash :: "string list \<Rightarrow> error + bytes" where
  "merkle_root_hash ids =
     (if ids \<noteq> []
      then bind (comprehension (\<lambda>txid. bind (bytes_fromhex txid) (\<lambda>b. Inr (rev b))) ids)
             (\<lambda>hash_items. Inr (merkle_root hash_items))
      else Inr (merkle_root []))"

subsection \<open>The block\<close>

record block =
  b_selected :: "pool_tx list"
  b_coinbase_tx :: bytes
  b_commitment :: bytes
  b_coinbase_tx_final :: bytes
  b_tx_id_list :: "string list"
  b_merkle_root :: bytes

text \<open>Lines 32 to 120, up to the merkle root.\<close>

definition build_block :: "(int \<Rightarrow> int \<Rightarrow> error + 'k::linorder) \<Rightarrow> pool_tx list \<Rightarrow> error + block" where
  "build_block truediv tx_list =
     bind (select_txs truediv tx_list) (\<lambda>selected_txs.
     bind (total_fees selected_txs) (\<lambda>fees.
     bind (coinbase_tx fees) (\<lambda>coinbase.
     bind (tx_wtxid_list coinbase selected_txs) (\<lambda>wtxids.
     bind (witness_commitment_value wtxids) (\<lambda>commitment.
     bind (coinbase_tx_final fees commitment) (\<lambda>coinbase_final.
     let coinbase_wtxid = bytes_hex (rev (hash_twice coinbase_final)) in
     bind (tx_id_list coinbase_wtxid selected_txs) (\<lambda>ids.
     bind (merkle_root_hash ids) (\<lambda>merkle.
       Inr \<lparr>b_selected = selected_txs, b_coinbase_tx = coinbase, b_commitment = commitment,
            b_coinbase_tx_final = coinbase_final, b_tx_id_list = ids,
            b_merkle_root = merkle\<rparr>))))))))"

text \<open>\<open>timestamp_now\<close> packs the clock, which is the parameter \<open>now\<close>.\<close>

definition block_header :: "int \<Rightarrow> bytes \<Rightarrow> error + bytes" where
  "block_header now merkle =
     bind (pack_I 0x20000000) (\<lambda>block_version.
     let prev_block_hash = replicate 32 0x00 in
     bind (pack_I now) (\<lambda>timestamp_now.
     bind (pack_I 0x1f00ffff) (\<lambda>block_bits.
       Inr (block_version @ prev_block_hash @ merkle @ timestamp_now @ block_bits))))"

text \<open>Python compares \<open>bytes\<close> lexicographically.\<close>

fun bytes_less :: "bytes \<Rightarrow> bytes \<Rightarrow> bool" where
  "bytes_less [] [] = False"
| "bytes_less [] (y # ys) = True"
| "bytes_less (x # xs) [] = False"
| "bytes_less (x # xs) (y # ys) = (x < y \<or> (x = y \<and> bytes_less xs ys))"

text \<open>
  \<open>for nonce in range(0, 0xFFFFFFFF)\<close> with its \<open>else\<close> clause: the loop from \<open>nonce\<close> on.
  It returns the mined header and the nonce.
\<close>

function find_nonce_from :: "bytes \<Rightarrow> bytes \<Rightarrow> nat \<Rightarrow> error + bytes \<times> nat" where
  "find_nonce_from header target_value nonce =
     (if nonce < 0xFFFFFFFF
      then bind (pack_I (int nonce)) (\<lambda>packed.
             let full_block_header = header @ packed;
                 block_hash_attempt = rev (hash_twice full_block_header)
             in if bytes_less block_hash_attempt target_value
                then Inr (full_block_header, nonce)
                else find_nonce_from header target_value (nonce + 1))
      else Inl ValueError)"
  by pat_completeness auto
termination
  by (relation "measure (\<lambda>(header, target_value, nonce). 0xFFFFFFFF - nonce)") auto

definition find_nonce :: "bytes \<Rightarrow> bytes \<Rightarrow> error + bytes \<times> nat" where
  "find_nonce header target_value = find_nonce_from header target_value 0"

text \<open>The whole script: the three lines it writes to \<open>out.txt\<close>.\<close>

definition mine_block ::
  "(int \<Rightarrow> int \<Rightarrow> error + 'k::linorder) \<Rightarrow> int \<Rightarrow> pool_tx list \<Rightarrow> error + string \<times> string \<times> string list" where
  "mine_block truediv now tx_list =
     bind (build_block truediv tx_list) (\<lambda>b.
     bind (block_header now (b_merkle_root b)) (\<lambda>header.
     bind (find_nonce header target_threshold) (\<lambda>(mined_block_header, mined_nonce).
       Inr (bytes_hex mined_block_header, bytes_hex (b_coinbase_tx_final b), b_tx_id_list b))))"

section \<open>The formulas of the specification\<close>

text \<open>
  The extended serialization in the words of the specification (4.4): after the outputs,
  for each input, the number of its witness items and the items, each with its length.
  \<open>stacks\<close> holds one witness stack per input.
\<close>

definition spec_witness_stack :: "bytes list \<Rightarrow> error + bytes" where
  "spec_witness_stack stack =
     bind (serialize_varint (int (length stack))) (\<lambda>n.
     bind (comprehension
             (\<lambda>item. bind (serialize_varint (int (length item))) (\<lambda>m. Inr (m @ item))) stack)
       (\<lambda>items. Inr (n @ concat items)))"

definition spec_extended_serialization ::
  "int \<Rightarrow> txin list \<Rightarrow> txout list \<Rightarrow> bytes list list \<Rightarrow> int \<Rightarrow> error + bytes" where
  "spec_extended_serialization version inputs outputs stacks locktime =
     bind (pack_I version) (\<lambda>ver.
     bind (serialize_varint (int (length inputs))) (\<lambda>n_in.
     bind (serialize_inputs inputs) (\<lambda>ins.
     bind (serialize_varint (int (length outputs))) (\<lambda>n_out.
     bind (serialize_outputs outputs) (\<lambda>outs.
     bind (comprehension spec_witness_stack stacks) (\<lambda>wits.
     bind (pack_I locktime) (\<lambda>lt.
       Inr (ver @ [0x00] @ [0x01] @ n_in @ ins @ n_out @ outs @ concat wits @ lt))))))))"

text \<open>The legacy serialization (4.4): no marker, no flag, no witness.\<close>

definition spec_legacy_serialization ::
  "int \<Rightarrow> txin list \<Rightarrow> txout list \<Rightarrow> int \<Rightarrow> error + bytes" where
  "spec_legacy_serialization version inputs outputs locktime =
     bind (pack_I version) (\<lambda>ver.
     bind (serialize_varint (int (length inputs))) (\<lambda>n_in.
     bind (serialize_inputs inputs) (\<lambda>ins.
     bind (serialize_varint (int (length outputs))) (\<lambda>n_out.
     bind (serialize_outputs outputs) (\<lambda>outs.
     bind (pack_I locktime) (\<lambda>lt.
       Inr (ver @ n_in @ ins @ n_out @ outs @ lt)))))))"

text \<open>
  The BIP143 digest in the words of the specification (4.5), for the first input, with the
  value of the spent output and the locktime as arguments.
\<close>

definition spec_sighash ::
  "int \<Rightarrow> txin list \<Rightarrow> txout list \<Rightarrow> bytes \<Rightarrow> int \<Rightarrow> int \<Rightarrow> error + bytes" where
  "spec_sighash version inputs outputs redeem_script spent_value locktime =
     bind (comprehension
             (\<lambda>txin. bind (pack_I (prev_index txin)) (\<lambda>idx. Inr (prev_txid txin @ idx)))
             inputs) (\<lambda>prevouts.
     bind (comprehension (\<lambda>txin. pack_I (sequence txin)) inputs) (\<lambda>sequences.
     bind (serialize_varint (int (length redeem_script))) (\<lambda>n.
     bind (serialize_outputs outputs) (\<lambda>outs.
     bind (pack_I version) (\<lambda>ver.
     bind (first_input inputs) (\<lambda>this.
     bind (pack_I (prev_index this)) (\<lambda>idx.
     bind (pack_Q spent_value) (\<lambda>val.
     bind (pack_I (sequence this)) (\<lambda>sq.
     bind (pack_I locktime) (\<lambda>lt.
     bind (pack_I 0x01) (\<lambda>sighash_type.
       Inr (hash_twice
              (ver @ hash_twice (concat prevouts) @ hash_twice (concat sequences)
                 @ prev_txid this @ idx @ n @ redeem_script @ val @ sq @ hash_twice outs
                 @ lt @ sighash_type)))))))))))))"

text \<open>
  The coinbase transaction as a transaction: one input, the reward and the commitment
  outputs. Its legacy id is the reversed double hash of its legacy serialization, in hex.
\<close>

definition coinbase_inputs :: "txin list" where
  "coinbase_inputs =
     [\<lparr>prev_txid = replicate 32 0x00, prev_index = 0xFFFFFFFF,
       script_sig = script_sig_coinbase, sequence = 0xFFFFFFFF\<rparr>]"

definition coinbase_outputs :: "int \<Rightarrow> bytes \<Rightarrow> txout list" where
  "coinbase_outputs fees commitment =
     [\<lparr>amount = 5000000000 + fees, script_pubkey = p2pkh_script\<rparr>,
      \<lparr>amount = 0, script_pubkey = commitment_header @ commitment\<rparr>]"

definition spec_coinbase_txid :: "int \<Rightarrow> bytes \<Rightarrow> error + string" where
  "spec_coinbase_txid fees commitment =
     bind (spec_legacy_serialization 1 coinbase_inputs (coinbase_outputs fees commitment) 0)
       (\<lambda>legacy. Inr (bytes_hex (rev (hash_twice legacy))))"

text \<open>An exact true division, for running the selection on concrete pools.\<close>

definition truediv_exact :: "int \<Rightarrow> int \<Rightarrow> error + rat" where
  "truediv_exact a b = (if b = 0 then Inl ZeroDivisionError else Inr (of_int a / of_int b))"


text \<open>A record of the pool with all four fields, for running the selection.\<close>

definition example_tx :: "int \<Rightarrow> int \<Rightarrow> pool_tx" where
  "example_tx f w = \<lparr>fee = Some f, weight = Some w, txid = Some ''00'', hex = Some ''00''\<rparr>"

text \<open>The transaction of the script's example: its redeem script, input and output.\<close>

definition example_redeem_script :: bytes where
  "example_redeem_script =
    [0x52, 0x21, 0x03, 0x2f, 0xf8, 0xc5, 0xdf, 0x0b, 0xc0, 0x0f, 0xe1, 0xac, 0x23, 0x19, 0xc3, 0xb8,
     0x07, 0x0d, 0x6d, 0x1e, 0x04, 0xcf, 0xbf, 0x4f, 0xed, 0xda, 0x49, 0x9a, 0xe7, 0xb7, 0x75, 0x18,
     0x5a, 0xd5, 0x3b, 0x21, 0x03, 0x9b, 0xbc, 0x8d, 0x24, 0xf8, 0x9e, 0x5b, 0xc4, 0x4c, 0x5b, 0x0d,
     0x19, 0x80, 0xd6, 0x65, 0x83, 0x16, 0xa6, 0xb2, 0x44, 0x00, 0x23, 0x11, 0x7c, 0x3c, 0x03, 0xa4,
     0x97, 0x5b, 0x04, 0xdd, 0x56, 0x52, 0xae]"

definition example_inputs :: "txin list" where
  "example_inputs =
     [\<lparr>prev_txid = replicate 32 0x00, prev_index = 0,
       script_sig =
    [0x22, 0x00, 0x20, 0x4d, 0x4b, 0x11, 0xda, 0x1a, 0x44, 0xef, 0xeb, 0x28, 0x82, 0x82, 0x7c, 0x0b,
     0x85, 0xfb, 0xc8, 0x2d, 0x30, 0xa6, 0x0f, 0xcc, 0xab, 0x14, 0xd0, 0x32, 0x22, 0x6f, 0x54, 0x28,
     0xb5, 0x7c, 0xb6],
       sequence = 0xffffffff\<rparr>]"

definition example_outputs :: "txout list" where
  "example_outputs =
     [\<lparr>amount = 100000,
       script_pubkey =
    [0xa9, 0x14, 0x04, 0x3f, 0x51, 0x23, 0x01, 0xb6, 0x6f, 0xfa, 0x8d, 0x73, 0xe7, 0x19, 0x07, 0xe2,
     0xb0, 0xb8, 0x09, 0x89, 0x52, 0x15, 0x87]\<rparr>]"

text \<open>The block the script builds from an empty pool.\<close>

definition empty_pool_block :: block where
  "empty_pool_block =
     \<lparr>b_selected = [],
      b_coinbase_tx =
    [0x01, 0x00, 0x00, 0x00, 0x00, 0x01, 0x01, 0x00, 0x00, 0x00, 0x00, 0x00, 0x00, 0x00, 0x00, 0x00,
     0x00, 0x00, 0x00, 0x00, 0x00, 0x00, 0x00, 0x00, 0x00, 0x00, 0x00, 0x00, 0x00, 0x00, 0x00, 0x00,
     0x00, 0x00, 0x00, 0x00, 0x00, 0x00, 0x00, 0xff, 0xff, 0xff, 0xff, 0x05, 0x04, 0x00, 0x00, 0x00,
     0x00, 0xff, 0xff, 0xff, 0xff, 0x02, 0x00, 0xf2, 0x05, 0x2a, 0x01, 0x00, 0x00, 0x00, 0x19, 0x76,
     0xa9, 0x14, 0x00, 0x00, 0x00, 0x00, 0x00, 0x00, 0x00, 0x00, 0x00, 0x00, 0x00, 0x00, 0x00, 0x00,
     0x00, 0x00, 0x00, 0x00, 0x00, 0x00, 0x88, 0xac, 0x00, 0x00, 0x00, 0x00, 0x00, 0x00, 0x00, 0x00,
     0x26, 0x6a, 0x24, 0xaa, 0x21, 0xa9, 0xed, 0x00, 0x00, 0x00, 0x00, 0x00, 0x00, 0x00, 0x00, 0x00,
     0x00, 0x00, 0x00, 0x00, 0x00, 0x00, 0x00, 0x00, 0x00, 0x00, 0x00, 0x00, 0x00, 0x00, 0x00, 0x00,
     0x00, 0x00, 0x00, 0x00, 0x00, 0x00, 0x00, 0x01, 0x20, 0x00, 0x00, 0x00, 0x00, 0x00, 0x00, 0x00,
     0x00, 0x00, 0x00, 0x00, 0x00, 0x00, 0x00, 0x00, 0x00, 0x00, 0x00, 0x00, 0x00, 0x00, 0x00, 0x00,
     0x00, 0x00, 0x00, 0x00, 0x00, 0x00, 0x00, 0x00, 0x00, 0x00, 0x00, 0x00, 0x00],
      b_commitment =
    [0xe2, 0xf6, 0x1c, 0x3f, 0x71, 0xd1, 0xde, 0xfd, 0x3f, 0xa9, 0x99, 0xdf, 0xa3, 0x69, 0x53, 0x75,
     0x5c, 0x69, 0x06, 0x89, 0x79, 0x99, 0x62, 0xb4, 0x8b, 0xeb, 0xd8, 0x36, 0x97, 0x4e, 0x8c, 0xf9],
      b_coinbase_tx_final =
    [0x01, 0x00, 0x00, 0x00, 0x00, 0x01, 0x01, 0x00, 0x00, 0x00, 0x00, 0x00, 0x00, 0x00, 0x00, 0x00,
     0x00, 0x00, 0x00, 0x00, 0x00, 0x00, 0x00, 0x00, 0x00, 0x00, 0x00, 0x00, 0x00, 0x00, 0x00, 0x00,
     0x00, 0x00, 0x00, 0x00, 0x00, 0x00, 0x00, 0xff, 0xff, 0xff, 0xff, 0x05, 0x04, 0x00, 0x00, 0x00,
     0x00, 0xff, 0xff, 0xff, 0xff, 0x02, 0x00, 0xf2, 0x05, 0x2a, 0x01, 0x00, 0x00, 0x00, 0x19, 0x76,
     0xa9, 0x14, 0x00, 0x00, 0x00, 0x00, 0x00, 0x00, 0x00, 0x00, 0x00, 0x00, 0x00, 0x00, 0x00, 0x00,
     0x00, 0x00, 0x00, 0x00, 0x00, 0x00, 0x88, 0xac, 0x00, 0x00, 0x00, 0x00, 0x00, 0x00, 0x00, 0x00,
     0x26, 0x6a, 0x24, 0xaa, 0x21, 0xa9, 0xed, 0xe2, 0xf6, 0x1c, 0x3f, 0x71, 0xd1, 0xde, 0xfd, 0x3f,
     0xa9, 0x99, 0xdf, 0xa3, 0x69, 0x53, 0x75, 0x5c, 0x69, 0x06, 0x89, 0x79, 0x99, 0x62, 0xb4, 0x8b,
     0xeb, 0xd8, 0x36, 0x97, 0x4e, 0x8c, 0xf9, 0x01, 0x20, 0x00, 0x00, 0x00, 0x00, 0x00, 0x00, 0x00,
     0x00, 0x00, 0x00, 0x00, 0x00, 0x00, 0x00, 0x00, 0x00, 0x00, 0x00, 0x00, 0x00, 0x00, 0x00, 0x00,
     0x00, 0x00, 0x00, 0x00, 0x00, 0x00, 0x00, 0x00, 0x00, 0x00, 0x00, 0x00, 0x00],
      b_tx_id_list = [''50db8852e0a0faf4f05661a517beb7728e651e8de4c6c06763b575cffa042dd8''],
      b_merkle_root =
    [0xd8, 0x2d, 0x04, 0xfa, 0xcf, 0x75, 0xb5, 0x63, 0x67, 0xc0, 0xc6, 0xe4, 0x8d, 0x1e, 0x65, 0x8e,
     0x72, 0xb7, 0xbe, 0x17, 0xa5, 0x61, 0x56, 0xf0, 0xf4, 0xfa, 0xa0, 0xe0, 0x52, 0x88, 0xdb, 0x50]\<rparr>"

declare merkle_loop.simps [simp del] find_nonce_from.simps [simp del]

declare be_words.simps [simp del] sha_blocks.simps [simp del] rounds.simps [simp del]
  schedule.simps [simp del] add_state.simps [simp del]

section \<open>Exceptions and packing\<close>

lemma bind_Inr [simp]: "bind (Inr x) f = f x"
  by (simp add: bind_def)

lemma bind_Inl [simp]: "bind (Inl e) f = Inl e"
  by (simp add: bind_def)


lemma le_bytes_0 [simp]: "le_bytes 0 v = []"
  by (simp add: le_bytes_def)

lemma le_bytes_Suc: "le_bytes (Suc n) v = word_of_int (v mod 256) # le_bytes n (v div 256)"
proof -
  have "map (\<lambda>i. word_of_int (v div 256 ^ i mod 256) :: byte) [0..<Suc n]
        = word_of_int (v div 256 ^ 0 mod 256)
          # map (\<lambda>i. word_of_int (v div 256 ^ Suc i mod 256)) [0..<n]"
    by (simp add: map_upt_Suc del: upt_Suc)
  moreover have "\<And>i. v div 256 ^ Suc i = v div 256 div 256 ^ i"
    by (simp add: zdiv_zmult2_eq)
  ultimately show ?thesis
    by (simp add: le_bytes_def del: upt_Suc)
qed

lemma le_bytes_numeral:
  "le_bytes (numeral n) v = word_of_int (v mod 256) # le_bytes (pred_numeral n) (v div 256)"
  by (simp add: numeral_eq_Suc le_bytes_Suc)

lemma length_le_bytes [simp]: "length (le_bytes n v) = n"
  by (simp add: le_bytes_def)

lemma replicate_numeral: "replicate (numeral n) x = x # replicate (pred_numeral n) x"
  by (simp add: numeral_eq_Suc)

lemmas pack_eval =
  pack_H_def pack_I_def pack_Q_def le_bytes_numeral le_bytes_Suc replicate_numeral

section \<open>The merkle loop\<close>

lemma length_pair_hashes: "length (pair_hashes hs) = length hs div 2"
  by (induction hs rule: pair_hashes.induct) simp_all

lemma merkle_loop_short: "length hash_list \<le> 1 \<Longrightarrow> merkle_loop hash_list = hash_list"
  by (subst merkle_loop.simps) simp






section \<open>The nonce search\<close>

lemma find_nonce_from_range:
  "find_nonce_from header target_value nonce = Inr (mined, n) \<Longrightarrow> nonce \<le> n \<and> n < 0xFFFFFFFF"
proof (induction header target_value nonce rule: find_nonce_from.induct)
  case (1 header target_value nonce)
  show ?case
  proof (cases "nonce < 0xFFFFFFFF")
    case False
    with "1.prems" show ?thesis by (subst (asm) find_nonce_from.simps) simp
  next
    case True
    then have p: "pack_I (int nonce) = Inr (le_bytes 4 (int nonce))"
      by (simp add: pack_I_def)
    show ?thesis
    proof (cases "bytes_less (rev (hash_twice (header @ le_bytes 4 (int nonce)))) target_value")
      case hit: True
      with "1.prems" True p show ?thesis
        by (subst (asm) find_nonce_from.simps) (simp add: Let_def)
    next
      case miss: False
      with "1.prems" True p have "find_nonce_from header target_value (nonce + 1) = Inr (mined, n)"
        by (subst (asm) find_nonce_from.simps) (simp add: Let_def)
      with "1.IH" [OF True refl refl miss] show ?thesis by simp
    qed
  qed
qed

text \<open>
  Claim C3 fails on the code: the loop runs over \<open>range(0, 0xFFFFFFFF)\<close>, which ends at
  \<open>0xFFFFFFFE\<close>. The search never returns the nonce \<open>0xFFFFFFFF\<close>, and the loop that
  reaches it raises the exception without hashing that candidate.
\<close>

theorem find_nonce_skips_last:
  "find_nonce header target_value \<noteq> Inr (mined, 0xFFFFFFFF) \<and>
   find_nonce_from header target_value 0xFFFFFFFF = Inl ValueError"
proof -
  have "find_nonce_from header target_value 0xFFFFFFFF = Inl ValueError"
    by (subst find_nonce_from.simps) simp
  moreover have "find_nonce header target_value \<noteq> Inr (mined, 0xFFFFFFFF)"
    using find_nonce_from_range [of header target_value 0 mined "0xFFFFFFFF"]
    by (auto simp: find_nonce_def)
  ultimately show ?thesis by simp
qed

section \<open>The selection\<close>


lemma comprehension_append:
  "comprehension f (xs @ ys) =
     bind (comprehension f xs) (\<lambda>as. bind (comprehension f ys) (\<lambda>bs. Inr (as @ bs)))"
proof (induction xs)
  case Nil
  then show ?case by (cases "comprehension f ys") simp_all
next
  case (Cons x xs)
  then show ?case
    by (cases "f x"; cases "comprehension f xs"; cases "comprehension f ys") simp_all
qed

lemma select_loop_append:
  "select_loop selected total_weight (before @ rest) =
     bind (select_loop selected total_weight before) (\<lambda>(sel, tot). select_loop sel tot rest)"
proof (induction before arbitrary: selected total_weight)
  case Nil
  then show ?case by simp
next
  case (Cons tx before)
  then show ?case by (cases "getitem (weight tx)") simp_all
qed

text \<open>
  Claim C10. Whatever the loop does with a candidate \<open>tx\<close> of weight \<open>w\<close>, accept it
  when it fits the budget left by the candidates before it or skip it when it does not, it
  goes on with the rest of the list: the result is a scan of the whole list and need not
  be a prefix of it.
\<close>

theorem select_loop_scans_whole_list:
  "weight tx = Some w \<Longrightarrow>
   select_loop selected total_weight (before @ tx # rest) =
     bind (select_loop selected total_weight before) (\<lambda>(sel, tot).
       if tot + w \<le> 3996000 then select_loop (sel @ [tx]) (tot + w) rest
       else select_loop sel tot rest)"
  by (simp add: select_loop_append getitem_def max_block_size_def)






theorem select_loop_scans_whole_list_witness:
  "weight (example_tx 4000000 2000000) = Some 2000000 \<and>
   select_loop [] 0
     ([example_tx 9000000 3000000] @ example_tx 4000000 2000000 # [example_tx 900000 900000])
     = Inr ([example_tx 9000000 3000000, example_tx 900000 900000], 3900000) \<and>
   \<not> prefix [example_tx 9000000 3000000, example_tx 900000 900000]
       [example_tx 9000000 3000000, example_tx 4000000 2000000, example_tx 900000 900000]"
  using select_loop_scans_whole_list
    [of "example_tx 4000000 2000000" 2000000 "[]" 0 "[example_tx 9000000 3000000]"
        "[example_tx 900000 900000]"]
  by (simp add: example_tx_def getitem_def max_block_size_def)

section \<open>Hex strings\<close>

lemma nibble_cases:
  "n < 16 \<Longrightarrow> n \<in> set [0, 1, 2, 3, 4, 5, 6, 7, 8, 9, 10, 11, 12, 13, 14, 15::nat]"
proof -
  assume "n < 16"
  then have "n \<in> set [0..<16]" by simp
  also have "[0..<16] = [0, 1, 2, 3, 4, 5, 6, 7, 8, 9, 10, 11, 12, 13, 14, 15::nat]"
    by (simp add: upt_rec)
  finally show ?thesis .
qed

lemma hex_digits_ok:
  "\<forall>n \<in> set [0, 1, 2, 3, 4, 5, 6, 7, 8, 9, 10, 11, 12, 13, 14, 15::nat].
     hex_value (hex_digit n) = Some n \<and> \<not> is_space (hex_digit n)"
  by (simp add: hex_value_def hex_digit_def is_space_def)

lemma hex_value_hex_digit:
  "n < 16 \<Longrightarrow> hex_value (hex_digit n) = Some n \<and> \<not> is_space (hex_digit n)"
  using nibble_cases [of n] hex_digits_ok by blast


lemma bytes_fromhex_bytes_hex [simp]: "bytes_fromhex (bytes_hex bs) = Inr bs"
proof (induction bs)
  case Nil
  then show ?case by (simp add: bytes_hex_def)
next
  case (Cons b bs)
  have hi: "unat b div 16 < 16"
    using unsigned_less [of b, where 'a = nat] by (simp add: less_mult_imp_div_less)
  have lo: "unat b mod 16 < 16"
    by simp
  have "word_of_nat (16 * (unat b div 16) + unat b mod 16) = b"
    by simp
  then show ?case
    using Cons.IH hex_value_hex_digit [OF hi] hex_value_hex_digit [OF lo]
    by (simp add: bytes_hex_def)
qed


section \<open>The length of a digest\<close>

lemma length_addc [simp]: "length (addc c x y) = min (length x) (length y)"
  by (induction c x y rule: addc.induct) simp_all

lemma length_add_state [simp]: "length (add_state a b) = min (length a) (length b)"
  by (induction a b rule: add_state.induct) (simp_all add: add_state.simps)

lemma length_rounds: "length st = 8 \<Longrightarrow> length (rounds ks ws st) = 8"
  by (induction ks ws st rule: rounds.induct) (simp_all add: rounds.simps sha_round_def)

lemma length_sha_blocks: "length st = 8 \<Longrightarrow> length (sha_blocks st ws) = 8"
  by (induction st ws rule: sha_blocks.induct)
     (simp_all add: sha_blocks.simps compress_def length_rounds)

lemma length_concat_word_bytes: "length (concat (map word_bytes ws)) = 4 * length ws"
  by (induction ws) (simp_all add: word_bytes_def)

lemma length_sha256 [simp]: "length (sha256 m) = 32"
  by (simp add: sha256_def length_concat_word_bytes length_sha_blocks sha_H0_def)

lemma length_hash_twice [simp]: "length (hash_twice m) = 32"
  by (simp add: hash_twice_def)


section \<open>The nonce search on the range it covers\<close>

text \<open>
  From \<open>0\<close> to \<open>0xFFFFFFFE\<close> the search is the one of the specification: it returns the
  first nonce whose reversed double hash is below the target, with the header it hashed,
  and raises \<open>ValueError\<close> when there is none, as for a target of 32 zero bytes.
\<close>

lemma bytes_less_zeros: "length x = n \<Longrightarrow> \<not> bytes_less x (replicate n 0x00)"
proof (induction x arbitrary: n)
  case Nil
  then show ?case by simp
next
  case (Cons a x)
  then obtain m where "n = Suc m" "length x = m" by (cases n) auto
  with Cons.IH [of m] show ?case by simp
qed

lemma find_nonce_from_hit:
  "find_nonce_from header target_value nonce = Inr (mined, n) \<Longrightarrow>
   mined = header @ le_bytes 4 (int n) \<and> bytes_less (rev (hash_twice mined)) target_value \<and>
   (\<forall>k. nonce \<le> k \<and> k < n \<longrightarrow>
        \<not> bytes_less (rev (hash_twice (header @ le_bytes 4 (int k)))) target_value)"
proof (induction header target_value nonce rule: find_nonce_from.induct)
  case (1 header target_value nonce)
  show ?case
  proof (cases "nonce < 0xFFFFFFFF")
    case False
    with "1.prems" show ?thesis by (subst (asm) find_nonce_from.simps) simp
  next
    case True
    then have p: "pack_I (int nonce) = Inr (le_bytes 4 (int nonce))"
      by (simp add: pack_I_def)
    show ?thesis
    proof (cases "bytes_less (rev (hash_twice (header @ le_bytes 4 (int nonce)))) target_value")
      case hit: True
      with "1.prems" True p show ?thesis
        by (subst (asm) find_nonce_from.simps) (auto simp: Let_def)
    next
      case miss: False
      with "1.prems" True p have rec: "find_nonce_from header target_value (nonce + 1) = Inr (mined, n)"
        by (subst (asm) find_nonce_from.simps) (simp add: Let_def)
      note ih = "1.IH" [OF True refl refl miss rec]
      have "\<not> bytes_less (rev (hash_twice (header @ le_bytes 4 (int k)))) target_value"
        if "nonce \<le> k" "k < n" for k
      proof (cases "k = nonce")
        case True
        with miss show ?thesis by simp
      next
        case False
        with that have "nonce + 1 \<le> k" by simp
        with ih that show ?thesis by blast
      qed
      with ih show ?thesis by blast
    qed
  qed
qed

lemma find_nonce_from_exhausted:
  "(\<forall>k. nonce \<le> k \<and> k < 0xFFFFFFFF \<longrightarrow>
        \<not> bytes_less (rev (hash_twice (header @ le_bytes 4 (int k)))) target_value) \<Longrightarrow>
   find_nonce_from header target_value nonce = Inl ValueError"
proof (induction header target_value nonce rule: find_nonce_from.induct)
  case (1 header target_value nonce)
  show ?case
  proof (cases "nonce < 0xFFFFFFFF")
    case False
    then show ?thesis by (subst find_nonce_from.simps) simp
  next
    case True
    then have p: "pack_I (int nonce) = Inr (le_bytes 4 (int nonce))"
      by (simp add: pack_I_def)
    from "1.prems" True
    have miss: "\<not> bytes_less (rev (hash_twice (header @ le_bytes 4 (int nonce)))) target_value"
      by simp
    from "1.prems" have "\<forall>k. nonce + 1 \<le> k \<and> k < 0xFFFFFFFF \<longrightarrow>
        \<not> bytes_less (rev (hash_twice (header @ le_bytes 4 (int k)))) target_value"
      by simp
    from "1.IH" [OF True refl refl miss this] True p miss show ?thesis
      by (subst find_nonce_from.simps) (simp add: Let_def)
  qed
qed

lemma find_nonce_zero_target: "find_nonce header (replicate 32 0x00) = Inl ValueError"
  unfolding find_nonce_def
  by (rule find_nonce_from_exhausted) (simp add: bytes_less_zeros)

section \<open>Building the block\<close>

text \<open>
  Claim C7 fails on the code: the filter looks for \<open>fee\<close> and \<open>weight\<close> only. A record
  with both and without \<open>hex\<close> is selected and \<open>tx['hex']\<close> raises \<open>KeyError\<close>, so
  the script ends without a block; the same happens at \<open>tx['txid']\<close> for a record
  without \<open>txid\<close>.
\<close>

theorem build_block_missing_hex:
  "build_block truediv_exact
     [\<lparr>fee = Some 1000, weight = Some 400, txid = Some (replicate 64 CHR ''0''), hex = None\<rparr>] = Inl KeyError \<and>
   mine_block truediv_exact now
     [\<lparr>fee = Some 1000, weight = Some 400, txid = Some (replicate 64 CHR ''0''), hex = None\<rparr>] = Inl KeyError \<and>
   build_block truediv_exact
     [\<lparr>fee = Some 1000, weight = Some 400, txid = None, hex = Some ''00''\<rparr>] = Inl KeyError"
  by (simp add: mine_block_def build_block_def select_txs_def sort_reverse_def valid_txs_def
      fee_rate_def getitem_def truediv_exact_def max_block_size_def total_fees_def
      coinbase_tx_def coinbase_tx_final_def pack_I_def pack_Q_def tx_wtxid_list_def
      witness_commitment_value_def witness_hash_list_def tx_id_list_def
      is_space_def hex_value_def)






section \<open>Evaluating a digest\<close>

lemma map_upt_Suc_shift: "map f [0..<Suc n] = f 0 # map (\<lambda>i. f (Suc i)) [0..<n]"
  by (simp add: map_upt_Suc del: upt_Suc)

lemma int_bits_numeral: "map (bit (numeral k :: int)) [0..<n] = num_bits n k"
proof (induction n arbitrary: k)
  case 0
  then show ?case by simp
next
  case (Suc n)
  show ?case
  proof (cases k)
    case One
    have "map (\<lambda>i. bit (1::int) (Suc i)) [0..<n] = replicate n False"
      by (simp add: map_replicate_const bit_Suc)
    then show ?thesis using One by (simp add: map_upt_Suc_shift del: upt_Suc)
  next
    case (Bit0 k')
    then show ?thesis using Suc.IH [of k']
      by (simp add: map_upt_Suc_shift bit_Suc del: upt_Suc)
  next
    case (Bit1 k')
    then show ?thesis using Suc.IH [of k']
      by (simp add: map_upt_Suc_shift bit_Suc del: upt_Suc)
  qed
qed

lemma word_bits_upt:
  "n \<le> LENGTH('a) \<Longrightarrow> map (bit (numeral k :: 'a::len word)) [0..<n] = num_bits n k"
proof -
  assume n: "n \<le> LENGTH('a)"
  have "map (bit (numeral k :: 'a word)) [0..<n] = map (bit (numeral k :: int)) [0..<n]"
    using n by (auto simp: bit_numeral_word_iff)
  then show ?thesis by (simp add: int_bits_numeral)
qed

lemma byte_bits_numeral: "byte_bits (numeral k) = num_bits 8 k"
  by (simp add: byte_bits_def word_bits_upt del: upt_Suc)

lemma byte_bits_0: "byte_bits 0 = [False, False, False, False, False, False, False, False]"
  by (simp add: byte_bits_def upt_rec)

lemma byte_bits_1: "byte_bits 1 = [True, False, False, False, False, False, False, False]"
  by (simp add: byte_bits_def upt_rec bit_Suc)

lemma word_bits_numeral: "word_bits (numeral k) = num_bits 32 k"
  by (simp add: word_bits_def word_bits_upt del: upt_Suc)

lemma byte_bits_bits_byte:
  "byte_bits (bits_byte [b0, b1, b2, b3, b4, b5, b6, b7]) = [b0, b1, b2, b3, b4, b5, b6, b7]"
  by (simp add: byte_bits_def bits_byte_def bit_horner_sum_bit_iff upt_rec
      del: horner_sum_simps)

lemma num_bits_numeral:
  "num_bits (numeral n) num.One = True # replicate (pred_numeral n) False"
  "num_bits (numeral n) (num.Bit0 k) = False # num_bits (pred_numeral n) k"
  "num_bits (numeral n) (num.Bit1 k) = True # num_bits (pred_numeral n) k"
  by (simp_all add: numeral_eq_Suc)

lemma nth_Cons_pred: "(x # xs) ! numeral v = xs ! pred_numeral v"
  by (simp add: numeral_eq_Suc)

lemma take_Cons_pred: "take (numeral v) (x # xs) = x # take (pred_numeral v) xs"
  by (simp add: numeral_eq_Suc)

lemma drop_Cons_pred: "drop (numeral v) (x # xs) = drop (pred_numeral v) xs"
  by (simp add: numeral_eq_Suc)

lemma schedule_numeral:
  "schedule (numeral n) ws =
     schedule (pred_numeral n)
       (add32 (add32 (add32 (ws ! 15) (ssig0 (ws ! 14))) (ws ! 6)) (ssig1 (ws ! 1)) # ws)"
  by (simp add: numeral_eq_Suc schedule.simps)

lemma length_sha_state [simp]: "length (sha_blocks (map word_bits sha_H0) ws) = 8"
  by (simp add: length_sha_blocks sha_H0_def)

declare length_concat_word_bytes [simp]

lemmas sha_eval =
  be_words.simps byte_bits_numeral byte_bits_0 byte_bits_1 byte_bits_bits_byte word_bits_numeral
  num_bits_numeral num_bits.simps(1) replicate_numeral replicate_0
  pred_numeral_simps Num.BitM.simps One_nat_def
  append_Cons append_Nil take_Cons_pred drop_Cons_pred take_0 drop_0 take_Nil drop_Nil
  nth_Cons_0 nth_Cons_Suc nth_Cons_pred rev.simps list.map concat.simps
  if_True if_False not_True_eq_False not_False_eq_True
  bxor3.simps bmaj.simps xor3w.simps chw.simps majw.simps addc.simps add32_def rotr_def shr_def
  ssig0_def ssig1_def bsig0_def bsig1_def sha_K_def sha_H0_def schedule.simps(1) schedule_numeral
  sha_round_def rounds.simps add_state.simps compress_def sha_blocks.simps word_bytes_def

lemma sha256_abc:
  "sha256 [0x61, 0x62, 0x63] =
    [0xba, 0x78, 0x16, 0xbf, 0x8f, 0x01, 0xcf, 0xea, 0x41, 0x41, 0x40, 0xde, 0x5d, 0xae, 0x22, 0x23,
     0xb0, 0x03, 0x61, 0xa3, 0x96, 0x17, 0x7a, 0x9c, 0xb4, 0x10, 0xff, 0x61, 0xf2, 0x00, 0x15, 0xad]"
  apply (simp add: sha256_def sha_pad_def replicate_numeral)
  apply (simp only: sha_eval)
  apply (simp add: bits_byte_def)
  done

section \<open>The signature hash\<close>

lemma sha256d_example_prevouts:
  "sha256 (sha256
    [0x00, 0x00, 0x00, 0x00, 0x00, 0x00, 0x00, 0x00, 0x00, 0x00, 0x00, 0x00, 0x00, 0x00, 0x00, 0x00,
     0x00, 0x00, 0x00, 0x00, 0x00, 0x00, 0x00, 0x00, 0x00, 0x00, 0x00, 0x00, 0x00, 0x00, 0x00, 0x00,
     0x00, 0x00, 0x00, 0x00]) =
    [0xca, 0x5a, 0xce, 0x6d, 0xec, 0x77, 0x2a, 0x29, 0x07, 0x77, 0x98, 0x7f, 0xd7, 0x70, 0x16, 0xfc,
     0xfd, 0x32, 0x92, 0x5a, 0x42, 0xc8, 0x43, 0x89, 0xb7, 0xb5, 0xfb, 0xd1, 0xc0, 0x26, 0x54, 0xe1]"
  apply (simp add: sha256_def sha_pad_def replicate_numeral)
  apply (simp only: sha_eval)
  apply (simp add: bits_byte_def)
  done

lemma sha256d_example_sequences:
  "sha256 (sha256
    [0xff, 0xff, 0xff, 0xff]) =
    [0x3b, 0xb1, 0x30, 0x29, 0xce, 0x7b, 0x1f, 0x55, 0x9e, 0xf5, 0xe7, 0x47, 0xfc, 0xac, 0x43, 0x9f,
     0x14, 0x55, 0xa2, 0xec, 0x7c, 0x5f, 0x09, 0xb7, 0x22, 0x90, 0x79, 0x5e, 0x70, 0x66, 0x50, 0x44]"
  apply (simp add: sha256_def sha_pad_def replicate_numeral)
  apply (simp only: sha_eval)
  apply (simp add: bits_byte_def)
  done

lemma sha256d_example_outputs:
  "sha256 (sha256
    [0xa0, 0x86, 0x01, 0x00, 0x00, 0x00, 0x00, 0x00, 0x17, 0xa9, 0x14, 0x04, 0x3f, 0x51, 0x23, 0x01,
     0xb6, 0x6f, 0xfa, 0x8d, 0x73, 0xe7, 0x19, 0x07, 0xe2, 0xb0, 0xb8, 0x09, 0x89, 0x52, 0x15, 0x87]) =
    [0xa3, 0x82, 0x6e, 0xab, 0xfe, 0xf6, 0x00, 0x91, 0x1c, 0x29, 0xae, 0x19, 0x45, 0xbb, 0x9e, 0x53,
     0xbb, 0x88, 0x7f, 0x49, 0x05, 0x52, 0x6e, 0x79, 0x20, 0x7f, 0x24, 0x83, 0xf5, 0x88, 0xbe, 0x0b]"
  apply (simp add: sha256_def sha_pad_def replicate_numeral)
  apply (simp only: sha_eval)
  apply (simp add: bits_byte_def)
  done

lemma sha256d_example_preimage:
  "sha256 (sha256
    [0x02, 0x00, 0x00, 0x00, 0xca, 0x5a, 0xce, 0x6d, 0xec, 0x77, 0x2a, 0x29, 0x07, 0x77, 0x98, 0x7f,
     0xd7, 0x70, 0x16, 0xfc, 0xfd, 0x32, 0x92, 0x5a, 0x42, 0xc8, 0x43, 0x89, 0xb7, 0xb5, 0xfb, 0xd1,
     0xc0, 0x26, 0x54, 0xe1, 0x3b, 0xb1, 0x30, 0x29, 0xce, 0x7b, 0x1f, 0x55, 0x9e, 0xf5, 0xe7, 0x47,
     0xfc, 0xac, 0x43, 0x9f, 0x14, 0x55, 0xa2, 0xec, 0x7c, 0x5f, 0x09, 0xb7, 0x22, 0x90, 0x79, 0x5e,
     0x70, 0x66, 0x50, 0x44, 0x00, 0x00, 0x00, 0x00, 0x00, 0x00, 0x00, 0x00, 0x00, 0x00, 0x00, 0x00,
     0x00, 0x00, 0x00, 0x00, 0x00, 0x00, 0x00, 0x00, 0x00, 0x00, 0x00, 0x00, 0x00, 0x00, 0x00, 0x00,
     0x00, 0x00, 0x00, 0x00, 0x00, 0x00, 0x00, 0x00, 0x47, 0x52, 0x21, 0x03, 0x2f, 0xf8, 0xc5, 0xdf,
     0x0b, 0xc0, 0x0f, 0xe1, 0xac, 0x23, 0x19, 0xc3, 0xb8, 0x07, 0x0d, 0x6d, 0x1e, 0x04, 0xcf, 0xbf,
     0x4f, 0xed, 0xda, 0x49, 0x9a, 0xe7, 0xb7, 0x75, 0x18, 0x5a, 0xd5, 0x3b, 0x21, 0x03, 0x9b, 0xbc,
     0x8d, 0x24, 0xf8, 0x9e, 0x5b, 0xc4, 0x4c, 0x5b, 0x0d, 0x19, 0x80, 0xd6, 0x65, 0x83, 0x16, 0xa6,
     0xb2, 0x44, 0x00, 0x23, 0x11, 0x7c, 0x3c, 0x03, 0xa4, 0x97, 0x5b, 0x04, 0xdd, 0x56, 0x52, 0xae,
     0xa0, 0x86, 0x01, 0x00, 0x00, 0x00, 0x00, 0x00, 0xff, 0xff, 0xff, 0xff, 0xa3, 0x82, 0x6e, 0xab,
     0xfe, 0xf6, 0x00, 0x91, 0x1c, 0x29, 0xae, 0x19, 0x45, 0xbb, 0x9e, 0x53, 0xbb, 0x88, 0x7f, 0x49,
     0x05, 0x52, 0x6e, 0x79, 0x20, 0x7f, 0x24, 0x83, 0xf5, 0x88, 0xbe, 0x0b, 0x00, 0x00, 0x00, 0x00,
     0x01, 0x00, 0x00, 0x00]) =
    [0x49, 0x27, 0x5f, 0x30, 0x27, 0xc3, 0x47, 0x19, 0x6d, 0x9c, 0xd7, 0x4e, 0xbe, 0x10, 0xd9, 0x5c,
     0xed, 0x15, 0x94, 0xeb, 0x3d, 0x23, 0x5d, 0xcb, 0x03, 0x1e, 0x56, 0x5a, 0xca, 0x92, 0x58, 0xd6]"
  apply (simp add: sha256_def sha_pad_def replicate_numeral)
  apply (simp only: sha_eval)
  apply (simp add: bits_byte_def)
  done

lemma sha256d_example_preimage_value:
  "sha256 (sha256
    [0x02, 0x00, 0x00, 0x00, 0xca, 0x5a, 0xce, 0x6d, 0xec, 0x77, 0x2a, 0x29, 0x07, 0x77, 0x98, 0x7f,
     0xd7, 0x70, 0x16, 0xfc, 0xfd, 0x32, 0x92, 0x5a, 0x42, 0xc8, 0x43, 0x89, 0xb7, 0xb5, 0xfb, 0xd1,
     0xc0, 0x26, 0x54, 0xe1, 0x3b, 0xb1, 0x30, 0x29, 0xce, 0x7b, 0x1f, 0x55, 0x9e, 0xf5, 0xe7, 0x47,
     0xfc, 0xac, 0x43, 0x9f, 0x14, 0x55, 0xa2, 0xec, 0x7c, 0x5f, 0x09, 0xb7, 0x22, 0x90, 0x79, 0x5e,
     0x70, 0x66, 0x50, 0x44, 0x00, 0x00, 0x00, 0x00, 0x00, 0x00, 0x00, 0x00, 0x00, 0x00, 0x00, 0x00,
     0x00, 0x00, 0x00, 0x00, 0x00, 0x00, 0x00, 0x00, 0x00, 0x00, 0x00, 0x00, 0x00, 0x00, 0x00, 0x00,
     0x00, 0x00, 0x00, 0x00, 0x00, 0x00, 0x00, 0x00, 0x47, 0x52, 0x21, 0x03, 0x2f, 0xf8, 0xc5, 0xdf,
     0x0b, 0xc0, 0x0f, 0xe1, 0xac, 0x23, 0x19, 0xc3, 0xb8, 0x07, 0x0d, 0x6d, 0x1e, 0x04, 0xcf, 0xbf,
     0x4f, 0xed, 0xda, 0x49, 0x9a, 0xe7, 0xb7, 0x75, 0x18, 0x5a, 0xd5, 0x3b, 0x21, 0x03, 0x9b, 0xbc,
     0x8d, 0x24, 0xf8, 0x9e, 0x5b, 0xc4, 0x4c, 0x5b, 0x0d, 0x19, 0x80, 0xd6, 0x65, 0x83, 0x16, 0xa6,
     0xb2, 0x44, 0x00, 0x23, 0x11, 0x7c, 0x3c, 0x03, 0xa4, 0x97, 0x5b, 0x04, 0xdd, 0x56, 0x52, 0xae,
     0x40, 0x0d, 0x03, 0x00, 0x00, 0x00, 0x00, 0x00, 0xff, 0xff, 0xff, 0xff, 0xa3, 0x82, 0x6e, 0xab,
     0xfe, 0xf6, 0x00, 0x91, 0x1c, 0x29, 0xae, 0x19, 0x45, 0xbb, 0x9e, 0x53, 0xbb, 0x88, 0x7f, 0x49,
     0x05, 0x52, 0x6e, 0x79, 0x20, 0x7f, 0x24, 0x83, 0xf5, 0x88, 0xbe, 0x0b, 0x00, 0x00, 0x00, 0x00,
     0x01, 0x00, 0x00, 0x00]) =
    [0x86, 0xa1, 0xa4, 0xdf, 0x15, 0x53, 0xa9, 0x3e, 0x40, 0x14, 0xa6, 0xe3, 0xd9, 0xbb, 0x7c, 0x99,
     0x7a, 0x1a, 0x26, 0x1b, 0xe1, 0x53, 0x97, 0x80, 0xb0, 0x15, 0x97, 0x21, 0x02, 0x93, 0xf1, 0xe4]"
  apply (simp add: sha256_def sha_pad_def replicate_numeral)
  apply (simp only: sha_eval)
  apply (simp add: bits_byte_def)
  done

lemma sha256d_example_preimage_locktime:
  "sha256 (sha256
    [0x02, 0x00, 0x00, 0x00, 0xca, 0x5a, 0xce, 0x6d, 0xec, 0x77, 0x2a, 0x29, 0x07, 0x77, 0x98, 0x7f,
     0xd7, 0x70, 0x16, 0xfc, 0xfd, 0x32, 0x92, 0x5a, 0x42, 0xc8, 0x43, 0x89, 0xb7, 0xb5, 0xfb, 0xd1,
     0xc0, 0x26, 0x54, 0xe1, 0x3b, 0xb1, 0x30, 0x29, 0xce, 0x7b, 0x1f, 0x55, 0x9e, 0xf5, 0xe7, 0x47,
     0xfc, 0xac, 0x43, 0x9f, 0x14, 0x55, 0xa2, 0xec, 0x7c, 0x5f, 0x09, 0xb7, 0x22, 0x90, 0x79, 0x5e,
     0x70, 0x66, 0x50, 0x44, 0x00, 0x00, 0x00, 0x00, 0x00, 0x00, 0x00, 0x00, 0x00, 0x00, 0x00, 0x00,
     0x00, 0x00, 0x00, 0x00, 0x00, 0x00, 0x00, 0x00, 0x00, 0x00, 0x00, 0x00, 0x00, 0x00, 0x00, 0x00,
     0x00, 0x00, 0x00, 0x00, 0x00, 0x00, 0x00, 0x00, 0x47, 0x52, 0x21, 0x03, 0x2f, 0xf8, 0xc5, 0xdf,
     0x0b, 0xc0, 0x0f, 0xe1, 0xac, 0x23, 0x19, 0xc3, 0xb8, 0x07, 0x0d, 0x6d, 0x1e, 0x04, 0xcf, 0xbf,
     0x4f, 0xed, 0xda, 0x49, 0x9a, 0xe7, 0xb7, 0x75, 0x18, 0x5a, 0xd5, 0x3b, 0x21, 0x03, 0x9b, 0xbc,
     0x8d, 0x24, 0xf8, 0x9e, 0x5b, 0xc4, 0x4c, 0x5b, 0x0d, 0x19, 0x80, 0xd6, 0x65, 0x83, 0x16, 0xa6,
     0xb2, 0x44, 0x00, 0x23, 0x11, 0x7c, 0x3c, 0x03, 0xa4, 0x97, 0x5b, 0x04, 0xdd, 0x56, 0x52, 0xae,
     0xa0, 0x86, 0x01, 0x00, 0x00, 0x00, 0x00, 0x00, 0xff, 0xff, 0xff, 0xff, 0xa3, 0x82, 0x6e, 0xab,
     0xfe, 0xf6, 0x00, 0x91, 0x1c, 0x29, 0xae, 0x19, 0x45, 0xbb, 0x9e, 0x53, 0xbb, 0x88, 0x7f, 0x49,
     0x05, 0x52, 0x6e, 0x79, 0x20, 0x7f, 0x24, 0x83, 0xf5, 0x88, 0xbe, 0x0b, 0x01, 0x00, 0x00, 0x00,
     0x01, 0x00, 0x00, 0x00]) =
    [0x30, 0xca, 0x9a, 0x81, 0x89, 0xaf, 0x88, 0xa0, 0xe0, 0x81, 0xa2, 0x49, 0x85, 0xde, 0xb1, 0xe1,
     0xde, 0xfd, 0xac, 0xe2, 0x24, 0x2c, 0xed, 0x6d, 0x8d, 0xa2, 0x97, 0xa8, 0x77, 0xd6, 0x7a, 0xd6]"
  apply (simp add: sha256_def sha_pad_def replicate_numeral)
  apply (simp only: sha_eval)
  apply (simp add: bits_byte_def)
  done

lemma serialize_outputs_loop_eq:
  "serialize_outputs_loop serialized_outputs tx_outputs =
     bind (comprehension
             (\<lambda>txout. bind (pack_Q (amount txout)) (\<lambda>v.
                      bind (serialize_varint (int (length (script_pubkey txout)))) (\<lambda>m.
                        Inr (v @ m @ script_pubkey txout))))
             tx_outputs)
       (\<lambda>os. Inr (serialized_outputs @ concat os))"
proof (induction tx_outputs arbitrary: serialized_outputs)
  case Nil
  then show ?case by simp
next
  case (Cons txout rest)
  show ?case
    by (cases "pack_Q (amount txout)";
        cases "serialize_varint (int (length (script_pubkey txout)))";
        cases "comprehension
                 (\<lambda>txout. bind (pack_Q (amount txout)) (\<lambda>v.
                          bind (serialize_varint (int (length (script_pubkey txout)))) (\<lambda>m.
                            Inr (v @ m @ script_pubkey txout))))
                 rest")
       (simp_all add: Cons.IH)
qed

text \<open>
  Claim C2, as amended. For a single input and a supplied locktime of 0,
  \<open>calculate_sighash\<close> returns the double hash of the preimage of the specification in
  which the value of the spent output is the constant 100000.
\<close>

theorem calculate_sighash_fixed_value:
  "length tx_inputs = 1 \<Longrightarrow>
   calculate_sighash tx_version tx_inputs tx_outputs redeem_script 0 =
     spec_sighash tx_version tx_inputs tx_outputs redeem_script 100000 0"
  unfolding calculate_sighash_def sighash_preimage_def spec_sighash_def serialize_outputs_def
    hash_twice_def Let_def
  by (auto simp: bind_def serialize_outputs_loop_eq split: sum.splits)

lemmas sighash_eval =
  calculate_sighash_def sighash_preimage_def spec_sighash_def serialize_outputs_def
  hash_twice_def first_input_def serialize_varint_def pack_eval
  example_inputs_def example_outputs_def example_redeem_script_def
  sha256d_example_prevouts sha256d_example_sequences sha256d_example_outputs

lemma calculate_sighash_example:
  "calculate_sighash 2 example_inputs example_outputs example_redeem_script locktime =
     Inr [0x49, 0x27, 0x5f, 0x30, 0x27, 0xc3, 0x47, 0x19, 0x6d, 0x9c, 0xd7, 0x4e, 0xbe, 0x10,
          0xd9, 0x5c, 0xed, 0x15, 0x94, 0xeb, 0x3d, 0x23, 0x5d, 0xcb, 0x03, 0x1e, 0x56, 0x5a,
          0xca, 0x92, 0x58, 0xd6]"
  by (simp add: sighash_eval sha256d_example_preimage)

lemma spec_sighash_example_value:
  "spec_sighash 2 example_inputs example_outputs example_redeem_script 200000 0 =
     Inr [0x86, 0xa1, 0xa4, 0xdf, 0x15, 0x53, 0xa9, 0x3e, 0x40, 0x14, 0xa6, 0xe3, 0xd9, 0xbb,
          0x7c, 0x99, 0x7a, 0x1a, 0x26, 0x1b, 0xe1, 0x53, 0x97, 0x80, 0xb0, 0x15, 0x97, 0x21,
          0x02, 0x93, 0xf1, 0xe4]"
  by (simp add: sighash_eval sha256d_example_preimage_value)

lemma spec_sighash_example_locktime:
  "spec_sighash 2 example_inputs example_outputs example_redeem_script 100000 1 =
     Inr [0x30, 0xca, 0x9a, 0x81, 0x89, 0xaf, 0x88, 0xa0, 0xe0, 0x81, 0xa2, 0x49, 0x85, 0xde,
          0xb1, 0xe1, 0xde, 0xfd, 0xac, 0xe2, 0x24, 0x2c, 0xed, 0x6d, 0x8d, 0xa2, 0x97, 0xa8,
          0x77, 0xd6, 0x7a, 0xd6]"
  by (simp add: sighash_eval sha256d_example_preimage_locktime)

theorem calculate_sighash_fixed_value_witness:
  "length example_inputs = 1 \<and>
   calculate_sighash 2 example_inputs example_outputs example_redeem_script 0 =
     spec_sighash 2 example_inputs example_outputs example_redeem_script 100000 0 \<and>
   spec_sighash 2 example_inputs example_outputs example_redeem_script 100000 0 =
     Inr [0x49, 0x27, 0x5f, 0x30, 0x27, 0xc3, 0x47, 0x19, 0x6d, 0x9c, 0xd7, 0x4e, 0xbe, 0x10,
          0xd9, 0x5c, 0xed, 0x15, 0x94, 0xeb, 0x3d, 0x23, 0x5d, 0xcb, 0x03, 0x1e, 0x56, 0x5a,
          0xca, 0x92, 0x58, 0xd6]"
  using calculate_sighash_fixed_value [of example_inputs 2 example_outputs example_redeem_script]
    calculate_sighash_example [of 0]
  by (simp add: example_inputs_def)

text \<open>
  Claim C2 as stated fails on the example transaction: with a spent output of 200000 the
  digest of the specification differs from the one returned, and so does the digest for a
  locktime of 1, which \<open>calculate_sighash\<close> receives and does not read.
\<close>

theorem calculate_sighash_constants_counterexample:
  "calculate_sighash 2 example_inputs example_outputs example_redeem_script 0
     \<noteq> spec_sighash 2 example_inputs example_outputs example_redeem_script 200000 0 \<and>
   calculate_sighash 2 example_inputs example_outputs example_redeem_script 1
     \<noteq> spec_sighash 2 example_inputs example_outputs example_redeem_script 100000 1"
  by (simp add: calculate_sighash_example spec_sighash_example_value
      spec_sighash_example_locktime)

section \<open>The block of an empty pool\<close>

lemma sha256d_empty_witness_root:
  "sha256 (sha256
    [0x00, 0x00, 0x00, 0x00, 0x00, 0x00, 0x00, 0x00, 0x00, 0x00, 0x00, 0x00, 0x00, 0x00, 0x00, 0x00,
     0x00, 0x00, 0x00, 0x00, 0x00, 0x00, 0x00, 0x00, 0x00, 0x00, 0x00, 0x00, 0x00, 0x00, 0x00, 0x00,
     0x00, 0x00, 0x00, 0x00, 0x00, 0x00, 0x00, 0x00, 0x00, 0x00, 0x00, 0x00, 0x00, 0x00, 0x00, 0x00,
     0x00, 0x00, 0x00, 0x00, 0x00, 0x00, 0x00, 0x00, 0x00, 0x00, 0x00, 0x00, 0x00, 0x00, 0x00, 0x00]) =
    [0xe2, 0xf6, 0x1c, 0x3f, 0x71, 0xd1, 0xde, 0xfd, 0x3f, 0xa9, 0x99, 0xdf, 0xa3, 0x69, 0x53, 0x75,
     0x5c, 0x69, 0x06, 0x89, 0x79, 0x99, 0x62, 0xb4, 0x8b, 0xeb, 0xd8, 0x36, 0x97, 0x4e, 0x8c, 0xf9]"
  apply (simp add: sha256_def sha_pad_def replicate_numeral)
  apply (simp only: sha_eval)
  apply (simp add: bits_byte_def)
  done

lemma sha256d_empty_coinbase_final:
  "sha256 (sha256
    [0x01, 0x00, 0x00, 0x00, 0x00, 0x01, 0x01, 0x00, 0x00, 0x00, 0x00, 0x00, 0x00, 0x00, 0x00, 0x00,
     0x00, 0x00, 0x00, 0x00, 0x00, 0x00, 0x00, 0x00, 0x00, 0x00, 0x00, 0x00, 0x00, 0x00, 0x00, 0x00,
     0x00, 0x00, 0x00, 0x00, 0x00, 0x00, 0x00, 0xff, 0xff, 0xff, 0xff, 0x05, 0x04, 0x00, 0x00, 0x00,
     0x00, 0xff, 0xff, 0xff, 0xff, 0x02, 0x00, 0xf2, 0x05, 0x2a, 0x01, 0x00, 0x00, 0x00, 0x19, 0x76,
     0xa9, 0x14, 0x00, 0x00, 0x00, 0x00, 0x00, 0x00, 0x00, 0x00, 0x00, 0x00, 0x00, 0x00, 0x00, 0x00,
     0x00, 0x00, 0x00, 0x00, 0x00, 0x00, 0x88, 0xac, 0x00, 0x00, 0x00, 0x00, 0x00, 0x00, 0x00, 0x00,
     0x26, 0x6a, 0x24, 0xaa, 0x21, 0xa9, 0xed, 0xe2, 0xf6, 0x1c, 0x3f, 0x71, 0xd1, 0xde, 0xfd, 0x3f,
     0xa9, 0x99, 0xdf, 0xa3, 0x69, 0x53, 0x75, 0x5c, 0x69, 0x06, 0x89, 0x79, 0x99, 0x62, 0xb4, 0x8b,
     0xeb, 0xd8, 0x36, 0x97, 0x4e, 0x8c, 0xf9, 0x01, 0x20, 0x00, 0x00, 0x00, 0x00, 0x00, 0x00, 0x00,
     0x00, 0x00, 0x00, 0x00, 0x00, 0x00, 0x00, 0x00, 0x00, 0x00, 0x00, 0x00, 0x00, 0x00, 0x00, 0x00,
     0x00, 0x00, 0x00, 0x00, 0x00, 0x00, 0x00, 0x00, 0x00, 0x00, 0x00, 0x00, 0x00]) =
    [0xd8, 0x2d, 0x04, 0xfa, 0xcf, 0x75, 0xb5, 0x63, 0x67, 0xc0, 0xc6, 0xe4, 0x8d, 0x1e, 0x65, 0x8e,
     0x72, 0xb7, 0xbe, 0x17, 0xa5, 0x61, 0x56, 0xf0, 0xf4, 0xfa, 0xa0, 0xe0, 0x52, 0x88, 0xdb, 0x50]"
  apply (simp add: sha256_def sha_pad_def replicate_numeral)
  apply (simp only: sha_eval)
  apply (simp add: bits_byte_def)
  done

lemma sha256d_empty_coinbase_legacy:
  "sha256 (sha256
    [0x01, 0x00, 0x00, 0x00, 0x01, 0x00, 0x00, 0x00, 0x00, 0x00, 0x00, 0x00, 0x00, 0x00, 0x00, 0x00,
     0x00, 0x00, 0x00, 0x00, 0x00, 0x00, 0x00, 0x00, 0x00, 0x00, 0x00, 0x00, 0x00, 0x00, 0x00, 0x00,
     0x00, 0x00, 0x00, 0x00, 0x00, 0xff, 0xff, 0xff, 0xff, 0x05, 0x04, 0x00, 0x00, 0x00, 0x00, 0xff,
     0xff, 0xff, 0xff, 0x02, 0x00, 0xf2, 0x05, 0x2a, 0x01, 0x00, 0x00, 0x00, 0x19, 0x76, 0xa9, 0x14,
     0x00, 0x00, 0x00, 0x00, 0x00, 0x00, 0x00, 0x00, 0x00, 0x00, 0x00, 0x00, 0x00, 0x00, 0x00, 0x00,
     0x00, 0x00, 0x00, 0x00, 0x88, 0xac, 0x00, 0x00, 0x00, 0x00, 0x00, 0x00, 0x00, 0x00, 0x26, 0x6a,
     0x24, 0xaa, 0x21, 0xa9, 0xed, 0xe2, 0xf6, 0x1c, 0x3f, 0x71, 0xd1, 0xde, 0xfd, 0x3f, 0xa9, 0x99,
     0xdf, 0xa3, 0x69, 0x53, 0x75, 0x5c, 0x69, 0x06, 0x89, 0x79, 0x99, 0x62, 0xb4, 0x8b, 0xeb, 0xd8,
     0x36, 0x97, 0x4e, 0x8c, 0xf9, 0x00, 0x00, 0x00, 0x00]) =
    [0x6d, 0x88, 0x5c, 0xeb, 0xcc, 0xe6, 0x54, 0xd5, 0x3e, 0xda, 0xe7, 0x83, 0x68, 0x4a, 0x8f, 0xb7,
     0xf7, 0x8d, 0x8a, 0xe1, 0x8f, 0xed, 0xfa, 0x83, 0xa1, 0x51, 0xbc, 0x7e, 0xf6, 0xf5, 0x2b, 0xb1]"
  apply (simp add: sha256_def sha_pad_def replicate_numeral)
  apply (simp only: sha_eval)
  apply (simp add: bits_byte_def)
  done


lemma bytes_hex_empty_coinbase:
  "bytes_hex (rev (b_merkle_root empty_pool_block)) = hd (b_tx_id_list empty_pool_block)"
  by (simp add: empty_pool_block_def bytes_hex_def hex_digit_def)

lemma build_block_empty: "build_block truediv [] = Inr empty_pool_block"
proof -
  have "build_block truediv [] =
        Inr (empty_pool_block\<lparr>b_tx_id_list := [bytes_hex (rev (b_merkle_root empty_pool_block))]\<rparr>)"
    by (simp add: build_block_def select_txs_def sort_reverse_def valid_txs_def total_fees_def
        coinbase_tx_def coinbase_tx_final_def tx_wtxid_list_def witness_commitment_value_def
        witness_hash_list_def merkle_root_def merkle_loop_short tx_id_list_def
        merkle_root_hash_def hash_twice_def pack_eval script_sig_coinbase_def p2pkh_script_def
        commitment_header_def witness_reserved_value_def empty_pool_block_def
        sha256d_empty_witness_root sha256d_empty_coinbase_final)
  then show ?thesis
    by (simp add: bytes_hex_empty_coinbase) (simp add: empty_pool_block_def)
qed

text \<open>
  Claim C1 fails on the code. For the empty pool the only id the script lists, which is
  also the only leaf of its merkle tree, is \<open>50db88...2dd8\<close>: the reversed double hash of
  the final coinbase serialization with marker, flag and witness. The legacy id of that
  coinbase transaction, from the serialization without them, is \<open>b12bf5...886d\<close>.
\<close>

theorem coinbase_id_is_witness_id:
  "bind (build_block truediv_exact []) (\<lambda>b. Inr (b_tx_id_list b))
     = Inr [''50db8852e0a0faf4f05661a517beb7728e651e8de4c6c06763b575cffa042dd8''] \<and>
   bind (build_block truediv_exact []) (\<lambda>b. spec_coinbase_txid 0 (b_commitment b))
     = Inr ''b12bf5f67ebc51a183faed8fe18a8df7b78f4a6883e7da3ed554e6cceb5c886d''"
proof -
  have "spec_coinbase_txid 0 (b_commitment empty_pool_block)
        = Inr ''b12bf5f67ebc51a183faed8fe18a8df7b78f4a6883e7da3ed554e6cceb5c886d''"
    by (simp add: spec_coinbase_txid_def spec_legacy_serialization_def coinbase_inputs_def
        coinbase_outputs_def serialize_inputs_def serialize_outputs_def serialize_varint_def
        pack_eval script_sig_coinbase_def p2pkh_script_def commitment_header_def
        empty_pool_block_def hash_twice_def sha256d_empty_coinbase_legacy
        bytes_hex_def hex_digit_def)
  then show ?thesis
    by (simp add: build_block_empty) (simp add: empty_pool_block_def)
qed


section \<open>The extended serialization\<close>

lemma serialize_witness_loop_eq:
  "serialize_witness_loop tx_bytes witness =
     bind (comprehension
             (\<lambda>item. bind (serialize_varint (int (length item))) (\<lambda>m. Inr (m @ item))) witness)
       (\<lambda>items. Inr (tx_bytes @ concat items))"
proof (induction witness arbitrary: tx_bytes)
  case Nil
  then show ?case by simp
next
  case (Cons item rest)
  show ?case
  proof (cases "serialize_varint (int (length item))")
    case (Inl e)
    then show ?thesis by simp
  next
    case (Inr m)
    then show ?thesis
      by (cases "comprehension
                   (\<lambda>item. bind (serialize_varint (int (length item))) (\<lambda>m. Inr (m @ item)))
                   rest")
         (simp_all add: Cons.IH)
  qed
qed

text \<open>
  Claim C4, as amended. \<open>assemble_transaction\<close> takes one witness stack and writes one
  count for it. For a transaction with exactly one input its result is the extended
  serialization of the specification: version, marker \<open>0x00\<close>, flag \<open>0x01\<close>, the inputs and
  the outputs with their counts, the number of witness items of the input, each item with
  its length, and the locktime.
\<close>

theorem assemble_transaction_single_input:
  "length tx_inputs = 1 \<Longrightarrow>
   assemble_transaction tx_version tx_inputs tx_outputs witness locktime =
     spec_extended_serialization tx_version tx_inputs tx_outputs [witness] locktime"
  unfolding assemble_transaction_def spec_extended_serialization_def spec_witness_stack_def
  by (auto simp: bind_def serialize_witness_loop_eq split: sum.splits)

theorem assemble_transaction_single_input_witness:
  "length [\<lparr>prev_txid = replicate 32 0x11, prev_index = 0, script_sig = [],
            sequence = 0xffffffff\<rparr>] = 1 \<and>
   assemble_transaction 2
     [\<lparr>prev_txid = replicate 32 0x11, prev_index = 0, script_sig = [], sequence = 0xffffffff\<rparr>]
     [\<lparr>amount = 100000, script_pubkey = [0x51]\<rparr>] [[], [0x30, 0x01]] 0 =
   spec_extended_serialization 2
     [\<lparr>prev_txid = replicate 32 0x11, prev_index = 0, script_sig = [], sequence = 0xffffffff\<rparr>]
     [\<lparr>amount = 100000, script_pubkey = [0x51]\<rparr>] [[[], [0x30, 0x01]]] 0 \<and>
   spec_extended_serialization 2
     [\<lparr>prev_txid = replicate 32 0x11, prev_index = 0, script_sig = [], sequence = 0xffffffff\<rparr>]
     [\<lparr>amount = 100000, script_pubkey = [0x51]\<rparr>] [[[], [0x30, 0x01]]] 0 =
   Inr ([0x02, 0x00, 0x00, 0x00, 0x00, 0x01, 0x01] @ replicate 32 0x11
        @ [0x00, 0x00, 0x00, 0x00, 0x00, 0xff, 0xff, 0xff, 0xff,
           0x01, 0xa0, 0x86, 0x01, 0x00, 0x00, 0x00, 0x00, 0x00, 0x01, 0x51,
           0x02, 0x00, 0x02, 0x30, 0x01, 0x00, 0x00, 0x00, 0x00])"
  using assemble_transaction_single_input
    [of "[\<lparr>prev_txid = replicate 32 0x11, prev_index = 0, script_sig = [],
            sequence = 0xffffffff\<rparr>]"
        2 "[\<lparr>amount = 100000, script_pubkey = [0x51]\<rparr>]" "[[], [0x30, 0x01]]" 0]
  by (simp add: spec_extended_serialization_def spec_witness_stack_def serialize_inputs_def
      serialize_outputs_def serialize_varint_def pack_eval)

text \<open>
  Claim C4 as stated fails for two inputs with one witness item each: the specification
  writes a count of 1 in front of each item, \<open>assemble_transaction\<close>, given the two items,
  writes a single count of 2.
\<close>

theorem assemble_transaction_two_inputs_counterexample:
  "assemble_transaction 2
     [\<lparr>prev_txid = replicate 32 0x11, prev_index = 0, script_sig = [], sequence = 0xffffffff\<rparr>,
      \<lparr>prev_txid = replicate 32 0x22, prev_index = 1, script_sig = [], sequence = 0xffffffff\<rparr>]
     [] ([[0x01]] @ [[0x02]]) 0
   \<noteq> spec_extended_serialization 2
     [\<lparr>prev_txid = replicate 32 0x11, prev_index = 0, script_sig = [], sequence = 0xffffffff\<rparr>,
      \<lparr>prev_txid = replicate 32 0x22, prev_index = 1, script_sig = [], sequence = 0xffffffff\<rparr>]
     [] [[[0x01]], [[0x02]]] 0"
  by (simp add: assemble_transaction_def spec_extended_serialization_def spec_witness_stack_def
      serialize_inputs_def serialize_outputs_def serialize_varint_def pack_eval)

section \<open>The script of an address\<close>



end
